theory Spec2Isabelle
  imports Main
begin

section \<open>The document store\<close>

text \<open>
  Every handler of the application talks to one Firestore database through
  \<^verbatim>\<open>getDoc\<close> and \<^verbatim>\<open>updateDoc\<close>. A document is a finite map from
  field names to values; a collection is a list of documents keyed by their id. The
  store also keeps the list of calls it has received, so that what a handler reads and
  writes, and in which order, is part of its result.

  Numbers are modelled as integers (amounts and capacities are whole numbers in every
  example; fractional amounts are outside this model).
\<close>

type_synonym docid = string

datatype fval =
    VStr string
  | VNum int
  | VTime nat
  | VArr "string list"

text \<open>
  The right-hand sides of an update payload: a plain value, or one of the sentinels
  \<^verbatim>\<open>arrayUnion\<close>, \<^verbatim>\<open>arrayRemove\<close>, \<^verbatim>\<open>increment\<close>,
  \<^verbatim>\<open>serverTimestamp\<close>.
\<close>

datatype fop =
    Put fval
  | ArrayUnion "string list"
  | ArrayRemove "string list"
  | Increment int
  | ServerTimestamp

type_synonym document = "string \<rightharpoonup> fval"
type_synonym payload = "(string \<times> fop) list"
type_synonym collection = "(docid \<times> document) list"

text \<open>The parts of a query, in the order the code lists them: filters, ordering, limit.\<close>

datatype constraint =
    WhereEq string fval
  | WhereIn string "string list"
  | OrderByDesc string
  | Limit nat

datatype call =
    GetDoc string docid
  | GetDocs string "constraint list"
  | UpdateDoc string docid payload

record firestore =
  colls :: "string \<Rightarrow> collection"
  calls :: "call list"
  clock :: nat

text \<open>The array stored in a field; a missing field or a field of another type counts as empty.\<close>

fun arr_of :: "fval option \<Rightarrow> string list" where
  "arr_of (Some (VArr xs)) = xs"
| "arr_of _ = []"

fun num_of :: "fval option \<Rightarrow> int" where
  "num_of (Some (VNum n)) = n"
| "num_of _ = 0"

text \<open>\<^verbatim>\<open>arrayUnion\<close> appends the elements that are not present yet, each once.\<close>

fun array_union :: "string list \<Rightarrow> string list \<Rightarrow> string list" where
  "array_union xs [] = xs"
| "array_union xs (y # ys) = array_union (if y \<in> set xs then xs else xs @ [y]) ys"

fun apply_fop :: "nat \<Rightarrow> fop \<Rightarrow> fval option \<Rightarrow> fval" where
  "apply_fop now (Put v) old = v"
| "apply_fop now (ArrayUnion xs) old = VArr (array_union (arr_of old) xs)"
| "apply_fop now (ArrayRemove xs) old = VArr (filter (\<lambda>y. y \<notin> set xs) (arr_of old))"
| "apply_fop now (Increment n) old = VNum (num_of old + n)"
| "apply_fop now ServerTimestamp old = VTime now"

fun apply_payload :: "nat \<Rightarrow> payload \<Rightarrow> document \<Rightarrow> document" where
  "apply_payload now [] d = d"
| "apply_payload now ((k, f) # ps) d = apply_payload now ps (d(k \<mapsto> apply_fop now f (d k)))"

fun replace_doc :: "docid \<Rightarrow> document \<Rightarrow> collection \<Rightarrow> collection" where
  "replace_doc i d' [] = []"
| "replace_doc i d' ((j, d) # rest) =
     (if j = i then (j, d') # rest else (j, d) # replace_doc i d' rest)"

text \<open>\<^verbatim>\<open>getDoc\<close> returns the snapshot (\<open>None\<close> when \<^verbatim>\<open>exists()\<close> is false).\<close>

definition getDoc :: "string \<Rightarrow> docid \<Rightarrow> firestore \<Rightarrow> document option \<times> firestore" where
  "getDoc c i st = (map_of (colls st c) i, st\<lparr>calls := calls st @ [GetDoc c i]\<rparr>)"

text \<open>
  The message of the error thrown for a missing document names the document by its full
  path, which starts with the project's id. The id is set in the Firebase configuration
  module, which is not among the sources read here; it is left unspecified.
\<close>

definition projectId :: string where
  "projectId = undefined"

definition not_found_message :: "string \<Rightarrow> docid \<Rightarrow> string" where
  "not_found_message c i =
     ''No document to update: projects/'' @ projectId @ ''/databases/(default)/documents/'' @ c @ ''/'' @ i"

text \<open>
  \<^verbatim>\<open>updateDoc\<close> writes the payload's fields into an existing document and leaves
  the others; on a missing document it rejects, which the handlers see as a thrown error
  with a message (\<open>Some msg\<close> here). The write carries no precondition.
\<close>

definition updateDoc :: "string \<Rightarrow> docid \<Rightarrow> payload \<Rightarrow> firestore \<Rightarrow> string option \<times> firestore" where
  "updateDoc c i p st =
     (let st' = st\<lparr>calls := calls st @ [UpdateDoc c i p]\<rparr> in
      case map_of (colls st c) i of
        None \<Rightarrow> (Some (not_found_message c i), st')
      | Some d \<Rightarrow>
          (None, st'\<lparr>colls := (colls st)(c := replace_doc i (apply_payload (clock st) p d) (colls st c))\<rparr>))"

text \<open>
  Queries. \<^verbatim>\<open>where(f, "in", vs)\<close> keeps the documents whose field equals one of
  the listed strings. \<^verbatim>\<open>orderBy(f, "desc")\<close> drops the documents without the
  field and lists the others newest first; a collection is kept in ascending id order and
  the sort is stable, so equal timestamps come out in descending id order. Ordering
  fields are timestamps in every document the application writes; a field of another
  type sorts as time 0 here.
\<close>

fun order_key :: "fval option \<Rightarrow> nat" where
  "order_key (Some (VTime t)) = t"
| "order_key _ = 0"

fun str_in :: "fval option \<Rightarrow> string list \<Rightarrow> bool" where
  "str_in (Some (VStr s)) vs = (s \<in> set vs)"
| "str_in _ vs = False"

fun apply_constraint :: "constraint \<Rightarrow> collection \<Rightarrow> collection" where
  "apply_constraint (WhereEq f v) c = filter (\<lambda>e. snd e f = Some v) c"
| "apply_constraint (WhereIn f vs) c = filter (\<lambda>e. str_in (snd e f) vs) c"
| "apply_constraint (OrderByDesc f) c =
     rev (sort_key (\<lambda>e. order_key (snd e f)) (filter (\<lambda>e. snd e f \<noteq> None) c))"
| "apply_constraint (Limit n) c = take n c"

definition getDocs :: "string \<Rightarrow> constraint list \<Rightarrow> firestore \<Rightarrow> collection \<times> firestore" where
  "getDocs c q st = (fold apply_constraint q (colls st c), st\<lparr>calls := calls st @ [GetDocs c q]\<rparr>)"

text \<open>
  A read or a query can also be rejected by the store (a missing index, the security
  rules, the network); the caller then sees a thrown error with a code and a message.
  Which calls are rejected is not decided by the documents, so it is given from outside:
  \<open>rejects\<close> tells, for each call, whether the store rejects it and with what error.
  The call is recorded either way.
\<close>

record fs_error =
  err_code :: string
  err_message :: string

type_synonym faults = "call \<Rightarrow> fs_error option"

definition getDoc_or_throw ::
  "faults \<Rightarrow> string \<Rightarrow> docid \<Rightarrow> firestore \<Rightarrow> (fs_error + document option) \<times> firestore" where
  "getDoc_or_throw rejects c i st =
     (case rejects (GetDoc c i) of
        Some err \<Rightarrow> (Inl err, st\<lparr>calls := calls st @ [GetDoc c i]\<rparr>)
      | None \<Rightarrow> (Inr (fst (getDoc c i st)), snd (getDoc c i st)))"

definition getDocs_or_throw ::
  "faults \<Rightarrow> string \<Rightarrow> constraint list \<Rightarrow> firestore \<Rightarrow> (fs_error + collection) \<times> firestore" where
  "getDocs_or_throw rejects c q st =
     (case rejects (GetDocs c q) of
        Some err \<Rightarrow> (Inl err, st\<lparr>calls := calls st @ [GetDocs c q]\<rparr>)
      | None \<Rightarrow> (Inr (fst (getDocs c q st)), snd (getDocs c q st)))"

section \<open>Signed-in user, toasts, JavaScript truthiness\<close>

record auth_user =
  uid :: string
  displayName :: "string option"
  email :: "string option"

text \<open>A toast: title, description, variant.\<close>

datatype toast = Toast string "string option" "string option"

fun truthy :: "fval option \<Rightarrow> bool" where
  "truthy None = False"
| "truthy (Some (VStr s)) = (s \<noteq> [])"
| "truthy (Some (VNum n)) = (n \<noteq> 0)"
| "truthy (Some (VTime t)) = True"
| "truthy (Some (VArr xs)) = True"

text \<open>\<^verbatim>\<open>a || b\<close> on optional strings: the left operand unless it is missing or empty.\<close>

fun or_str :: "string option \<Rightarrow> string \<Rightarrow> string" where
  "or_str None b = b"
| "or_str (Some a) b = (if a = [] then b else a)"

text \<open>Every page owns a toaster; the toasts it has shown are part of its state.\<close>

record page =
  toasts :: "toast list"

definition say :: "toast \<Rightarrow> 'a page_scheme \<Rightarrow> 'a page_scheme" where
  "say t pg = pg\<lparr>toasts := toasts pg @ [t]\<rparr>"

section \<open>The volunteer page\<close>

record volunteer_page = page +
  userProfile :: "document option"
  opportunities :: "(docid \<times> document) list"
  foodDonations :: "(docid \<times> document) list"
  claimingFoodId :: "docid option"
  pickupNotes :: string
  pickupPhoneNumber :: string

text \<open>The name written on a claimed donation: profile name, else display name, else e-mail.\<close>

definition volunteerName_of :: "document option \<Rightarrow> auth_user \<Rightarrow> fval" where
  "volunteerName_of prof u =
     (case prof of
        Some p \<Rightarrow> (if truthy (p ''name'') then the (p ''name'')
                   else VStr (or_str (displayName u) (or_str (email u) ''Unknown Volunteer'')))
      | None \<Rightarrow> VStr (or_str (displayName u) (or_str (email u) ''Unknown Volunteer'')))"

definition claim_payload :: "document option \<Rightarrow> auth_user \<Rightarrow> string \<Rightarrow> string \<Rightarrow> payload" where
  "claim_payload prof u notes phoneNumber =
     [(''status'', Put (VStr ''claimed'')),
      (''claimedByVolunteerId'', Put (VStr (uid u))),
      (''volunteerName'', Put (volunteerName_of prof u)),
      (''claimedAt'', ServerTimestamp),
      (''volunteerPickupNotes'', Put (VStr notes)),
      (''volunteerPhoneNumber'', Put (VStr phoneNumber))]"

definition claim_failed :: "string \<Rightarrow> volunteer_page \<Rightarrow> volunteer_page" where
  "claim_failed msg pg =
     (say (Toast ''Claim Failed'' (Some (or_str (Some msg) ''Could not claim donation.'')) (Some ''destructive'')) pg)
       \<lparr>claimingFoodId := None\<rparr>"

definition handleClaimFood ::
  "auth_user option \<Rightarrow> docid \<Rightarrow> string \<Rightarrow> string \<Rightarrow> volunteer_page \<Rightarrow> firestore \<Rightarrow> volunteer_page \<times> firestore" where
  "handleClaimFood user donationId notes phoneNumber pg st =
     (case user of
        None \<Rightarrow>
          (say (Toast ''Please Login'' (Some ''You need to be logged in to claim.'') (Some ''destructive'')) pg, st)
      | Some u \<Rightarrow>
          (let pg1 = pg\<lparr>claimingFoodId := Some donationId\<rparr>;
               (donationSnap, st1) = getDoc ''food_donations'' donationId st
           in if donationSnap = None \<or> the donationSnap ''status'' \<noteq> Some (VStr ''available'')
              then (claim_failed ''This donation is no longer available or does not exist.'' pg1, st1)
              else
                (let (err, st2) = updateDoc ''food_donations'' donationId
                                    (claim_payload (userProfile pg1) u notes phoneNumber) st1
                 in case err of
                      Some msg \<Rightarrow> (claim_failed msg pg1, st2)
                    | None \<Rightarrow>
                        ((say (Toast ''Donation Claimed!'' (Some ''Please arrange pickup as per instructions.'') None) pg1)
                           \<lparr>foodDonations := filter (\<lambda>d. fst d \<noteq> donationId) (foodDonations pg1),
                            pickupNotes := [],
                            pickupPhoneNumber := [],
                            claimingFoodId := None\<rparr>,
                         st2))))"

text \<open>
  Signing up. The checks read the arguments, which the page passes from the copy of the
  opportunity it fetched when it loaded; the stored document is not read. A missing
  \<^verbatim>\<open>signedUpVolunteers\<close> argument defaults to the empty list. The capacity
  argument is the copy's \<open>spots\<close>, which is \<^verbatim>\<open>undefined\<close> (\<open>None\<close>) when
  the copy has no such field; \<^verbatim>\<open>n >= undefined\<close> is false.
\<close>

fun at_least :: "int \<Rightarrow> int option \<Rightarrow> bool" where
  "at_least n None = False"
| "at_least n (Some m) = (n \<ge> m)"

definition signUp_payload :: "auth_user \<Rightarrow> int option \<Rightarrow> string list \<Rightarrow> payload" where
  "signUp_payload u currentSpots signedUpVolunteers =
     (''signedUpVolunteers'', ArrayUnion [uid u]) #
     (if at_least (int (length signedUpVolunteers) + 1) currentSpots
      then [(''status'', Put (VStr ''full''))] else [])"

definition signedUp_locally :: "docid \<Rightarrow> string \<Rightarrow> payload \<Rightarrow> docid \<times> document \<Rightarrow> docid \<times> document" where
  "signedUp_locally opportunityId u updatePayload opp =
     (if fst opp = opportunityId
      then (fst opp,
            (let d = (snd opp)(''signedUpVolunteers'' \<mapsto> VArr (arr_of (snd opp ''signedUpVolunteers'') @ [u]))
             in case map_of updatePayload ''status'' of
                  Some (Put v) \<Rightarrow> d(''status'' \<mapsto> v)
                | _ \<Rightarrow> d))
      else opp)"

definition handleSignUp ::
  "auth_user option \<Rightarrow> docid \<Rightarrow> int option \<Rightarrow> string list option \<Rightarrow> volunteer_page \<Rightarrow> firestore \<Rightarrow> volunteer_page \<times> firestore" where
  "handleSignUp user opportunityId currentSpots signedUpVolunteers_arg pg st =
     (let signedUpVolunteers = (case signedUpVolunteers_arg of None \<Rightarrow> [] | Some xs \<Rightarrow> xs) in
      case user of
        None \<Rightarrow>
          (say (Toast ''Please Login'' (Some ''You need to be logged in to sign up.'') (Some ''destructive'')) pg, st)
      | Some u \<Rightarrow>
          if uid u \<in> set signedUpVolunteers
          then (say (Toast ''Already Signed Up'' None (Some ''default'')) pg, st)
          else if at_least (int (length signedUpVolunteers)) currentSpots
          then (say (Toast ''Opportunity Full'' None (Some ''destructive'')) pg, st)
          else
            (let updatePayload = signUp_payload u currentSpots signedUpVolunteers;
                 (err, st1) = updateDoc ''opportunities'' opportunityId updatePayload st
             in case err of
                  Some msg \<Rightarrow>
                    (say (Toast ''Sign Up Failed'' (Some (or_str (Some msg) ''Could not sign up.'')) (Some ''destructive'')) pg,
                     st1)
                | None \<Rightarrow>
                    ((say (Toast ''Sign Up Successful!'' (Some ''You're registered for the opportunity.'') None) pg)
                       \<lparr>opportunities :=
                          map (signedUp_locally opportunityId (uid u) updatePayload) (opportunities pg)\<rparr>,
                     st1)))"

definition cancel_payload :: "auth_user \<Rightarrow> payload" where
  "cancel_payload u =
     [(''signedUpVolunteers'', ArrayRemove [uid u]), (''status'', Put (VStr ''open''))]"

definition cancelled_locally :: "docid \<Rightarrow> string \<Rightarrow> docid \<times> document \<Rightarrow> docid \<times> document" where
  "cancelled_locally opportunityId u opp =
     (if fst opp = opportunityId
      then (fst opp,
            (snd opp)(''signedUpVolunteers'' \<mapsto> VArr (filter (\<lambda>x. x \<noteq> u) (arr_of (snd opp ''signedUpVolunteers''))),
                      ''status'' \<mapsto> VStr ''open''))
      else opp)"

definition handleCancelSignUp ::
  "auth_user option \<Rightarrow> docid \<Rightarrow> volunteer_page \<Rightarrow> firestore \<Rightarrow> volunteer_page \<times> firestore" where
  "handleCancelSignUp user opportunityId pg st =
     (case user of
        None \<Rightarrow> (pg, st)
      | Some u \<Rightarrow>
          (let (err, st1) = updateDoc ''opportunities'' opportunityId (cancel_payload u) st
           in case err of
                Some msg \<Rightarrow>
                  (say (Toast ''Cancellation Failed'' (Some (or_str (Some msg) ''Could not cancel sign up.'')) (Some ''destructive'')) pg,
                   st1)
              | None \<Rightarrow>
                  ((say (Toast ''Sign Up Cancelled'' (Some ''You are no longer registered.'') None) pg)
                     \<lparr>opportunities := map (cancelled_locally opportunityId (uid u)) (opportunities pg)\<rparr>,
                   st1)))"

text \<open>
  The button on an opportunity card: "Cancel Sign Up" when the page's copy lists the
  user, otherwise "Sign Up", disabled when that copy is full or not open or nobody is
  signed in. The copy's \<open>spots\<close> is a number, as the \<^verbatim>\<open>Opportunity\<close>
  interface requires, or is missing; a value of another type is outside this model
  (it reads as missing here).
\<close>

fun spots_of :: "fval option \<Rightarrow> int option" where
  "spots_of (Some (VNum n)) = Some n"
| "spots_of _ = None"

definition isUserSignedUp :: "auth_user option \<Rightarrow> document \<Rightarrow> bool" where
  "isUserSignedUp user opportunity =
     (case user of None \<Rightarrow> False
      | Some u \<Rightarrow> uid u \<in> set (arr_of (opportunity ''signedUpVolunteers'')))"

definition signUpDisabled :: "auth_user option \<Rightarrow> document \<Rightarrow> bool" where
  "signUpDisabled user opportunity =
     (at_least (int (length (arr_of (opportunity ''signedUpVolunteers'')))) (spots_of (opportunity ''spots''))
      \<or> opportunity ''status'' \<noteq> Some (VStr ''open'')
      \<or> user = None)"

fun arr_arg :: "fval option \<Rightarrow> string list option" where
  "arr_arg (Some (VArr xs)) = Some xs"
| "arr_arg _ = None"

definition clickOpportunityButton ::
  "auth_user option \<Rightarrow> docid \<Rightarrow> volunteer_page \<Rightarrow> firestore \<Rightarrow> volunteer_page \<times> firestore" where
  "clickOpportunityButton user opportunityId pg st =
     (case map_of (opportunities pg) opportunityId of
        None \<Rightarrow> (pg, st)
      | Some opportunity \<Rightarrow>
          if isUserSignedUp user opportunity then handleCancelSignUp user opportunityId pg st
          else if signUpDisabled user opportunity then (pg, st)
          else handleSignUp user opportunityId (spots_of (opportunity ''spots''))
                 (arr_arg (opportunity ''signedUpVolunteers'')) pg st)"

section \<open>The restaurant dashboard\<close>

text \<open>
  \<^verbatim>\<open>handleVerification\<close> is written twice, in the restaurant page and in the
  dashboard, with the same body; \<^verbatim>\<open>markDonationUnavailable\<close> is the dashboard's.
\<close>

record dashboard_page = page +
  foodRequests :: "(docid \<times> document) list"
  myDonations :: "(docid \<times> document) list"
  updatingId :: "docid option"

datatype verdict = Accepted | Rejected

fun verdict_str :: "verdict \<Rightarrow> string" where
  "verdict_str Accepted = ''accepted''"
| "verdict_str Rejected = ''rejected''"

definition verification_payload :: "auth_user \<Rightarrow> verdict \<Rightarrow> payload" where
  "verification_payload u status =
     [(''status'', Put (VStr (verdict_str status))),
      (''restaurantId'', Put (VStr (uid u))),
      (''restaurantName'', Put (VStr (or_str (displayName u) (or_str (email u) ''Restaurant'')))),
      (''updatedAt'', ServerTimestamp)]"

definition handleVerification ::
  "auth_user option \<Rightarrow> docid \<Rightarrow> verdict \<Rightarrow> dashboard_page \<Rightarrow> firestore \<Rightarrow> dashboard_page \<times> firestore" where
  "handleVerification user requestId status pg st =
     (case user of
        None \<Rightarrow> (pg, st)
      | Some u \<Rightarrow>
          (let pg1 = pg\<lparr>updatingId := Some requestId\<rparr>;
               (err, st1) = updateDoc ''food_requests'' requestId (verification_payload u status) st
           in case err of
                Some msg \<Rightarrow>
                  ((say (Toast ''Update Failed'' (Some msg) (Some ''destructive'')) pg1)\<lparr>updatingId := None\<rparr>, st1)
              | None \<Rightarrow>
                  ((say (Toast (''Request '' @ verdict_str status)
                           (Some (''Food request has been '' @ verdict_str status @ ''.'')) None) pg1)
                     \<lparr>foodRequests := filter (\<lambda>req. fst req \<noteq> requestId) (foodRequests pg1),
                      updatingId := None\<rparr>,
                   st1)))"

definition marked_locally :: "docid \<Rightarrow> docid \<times> document \<Rightarrow> docid \<times> document" where
  "marked_locally donationId d =
     (if fst d = donationId then (fst d, (snd d)(''status'' \<mapsto> VStr ''unavailable'')) else d)"

definition markDonationUnavailable ::
  "docid \<Rightarrow> dashboard_page \<Rightarrow> firestore \<Rightarrow> dashboard_page \<times> firestore" where
  "markDonationUnavailable donationId pg st =
     (let pg1 = pg\<lparr>updatingId := Some donationId\<rparr>;
          (err, st1) = updateDoc ''food_donations'' donationId [(''status'', Put (VStr ''unavailable''))] st
      in case err of
           Some msg \<Rightarrow>
             ((say (Toast ''Update Failed'' (Some msg) (Some ''destructive'')) pg1)\<lparr>updatingId := None\<rparr>, st1)
         | None \<Rightarrow>
             ((say (Toast ''Donation Updated'' (Some ''Marked as unavailable.'') None) pg1)
                \<lparr>myDonations := map (marked_locally donationId) (myDonations pg1),
                 updatingId := None\<rparr>,
              st1))"

section \<open>The payment success page\<close>

text \<open>
  The page is opened by the payment redirect with \<^verbatim>\<open>session_id\<close> and
  \<^verbatim>\<open>amount\<close> in its address. Its effect runs \<^verbatim>\<open>updateDonationCount\<close>
  whenever a dependency changes. \<open>toNumber\<close> stands for JavaScript's
  \<^verbatim>\<open>Number\<close> (\<open>None\<close> for \<^verbatim>\<open>NaN\<close>); \<open>isMounted\<close> is the
  flag when the function starts and \<open>isMounted_after\<close> the flag once the awaited write
  has returned.
\<close>

datatype update_status = Idle | Pending | Success | Error

record success_page = page +
  updateStatus :: update_status
  errorMessage :: "string option"

fun present :: "string option \<Rightarrow> bool" where
  "present None = False"
| "present (Some s) = (s \<noteq> [])"

definition skipped :: "bool \<Rightarrow> string \<Rightarrow> success_page \<Rightarrow> success_page" where
  "skipped isMounted msg pg =
     (if isMounted then pg\<lparr>updateStatus := Error, errorMessage := Some msg\<rparr> else pg)"

definition updateDonationCount ::
  "(string \<Rightarrow> int option) \<Rightarrow> bool \<Rightarrow> auth_user option \<Rightarrow> (string \<Rightarrow> string option) \<Rightarrow> bool \<Rightarrow> bool
     \<Rightarrow> success_page \<Rightarrow> firestore \<Rightarrow> success_page \<times> firestore" where
  "updateDonationCount toNumber authLoading user searchParams isMounted isMounted_after pg st =
     (case user of
        None \<Rightarrow> (pg, st)
      | Some u \<Rightarrow>
          if authLoading \<or> updateStatus pg \<noteq> Idle \<or> \<not> isMounted then (pg, st)
          else
            (let pg1 = pg\<lparr>updateStatus := Pending, errorMessage := None\<rparr>;
                 sessionId = searchParams ''session_id'';
                 amountStr = searchParams ''amount''
             in if \<not> present sessionId
                then (skipped isMounted ''Missing payment session info. Leaderboard update skipped.'' pg1, st)
                else if \<not> present amountStr \<or> toNumber (the amountStr) = None
                then (skipped isMounted ''Missing amount info. Leaderboard update skipped.'' pg1, st)
                else
                  (let amount = the (toNumber (the amountStr))
                   in if amount \<le> 0
                      then (skipped isMounted ''Invalid donation amount received.'' pg1, st)
                      else
                        (let (err, st1) = updateDoc ''users'' (uid u) [(''totalDonated'', Increment amount)] st
                         in case err of
                              None \<Rightarrow>
                                (if isMounted_after
                                 then (say (Toast ''Leaderboard Updated'' (Some ''Your contribution is reflected!'') None) pg1)
                                        \<lparr>updateStatus := Success\<rparr>
                                 else pg1,
                                 st1)
                            | Some msg \<Rightarrow>
                                (if isMounted_after
                                 then (say (Toast ''Leaderboard Update Failed''
                                              (Some ''Could not update your donation status on the leaderboard.'')
                                              (Some ''destructive'')) pg1)
                                        \<lparr>updateStatus := Error,
                                         errorMessage := Some ''Failed to update leaderboard status.''\<rparr>
                                 else pg1,
                                 st1)))))"

text \<open>Opening the address again (a reload, the back button, a shared link) builds a fresh page.\<close>

definition fresh_success_page :: success_page where
  "fresh_success_page = \<lparr>toasts = [], updateStatus = Idle, errorMessage = None\<rparr>"

section \<open>The issues an NGO sees\<close>

record ngo_issues_view = page +
  issues :: "(docid \<times> document) list"
  ngoProfile :: "document option"
  loading :: bool
  error :: "string option"
  updatingIssueId :: "docid option"

fun is_timestamp :: "fval option \<Rightarrow> bool" where
  "is_timestamp (Some (VTime t)) = True"
| "is_timestamp _ = False"

definition valid_issue :: "docid \<times> document \<Rightarrow> bool" where
  "valid_issue e =
     (let data = snd e
      in truthy (data ''title'') \<and> truthy (data ''category'') \<and> truthy (data ''location'')
         \<and> truthy (data ''reporterId'') \<and> is_timestamp (data ''timestamp'') \<and> truthy (data ''status''))"

definition targetStatuses :: "string list" where
  "targetStatuses = [''pending'', ''in-progress'']"

definition areasToQuery :: "string list \<Rightarrow> string list" where
  "areasToQuery fetchedFocusAreas =
     (if length fetchedFocusAreas > 30 then take 30 fetchedFocusAreas else fetchedFocusAreas)"

definition issues_query :: "string list \<Rightarrow> constraint list" where
  "issues_query areas =
     [WhereIn ''category'' areas, WhereIn ''status'' targetStatuses, OrderByDesc ''timestamp'', Limit 50]"

text \<open>
  \<^verbatim>\<open>err.message.includes('index')\<close>: whether the text occurs somewhere in the message.
\<close>

fun starts_with :: "string \<Rightarrow> string \<Rightarrow> bool" where
  "starts_with [] s = True"
| "starts_with (c # cs) [] = False"
| "starts_with (c # cs) (d # ds) = (c = d \<and> starts_with cs ds)"

fun str_includes :: "string \<Rightarrow> string \<Rightarrow> bool" where
  "str_includes sub [] = (sub = [])"
| "str_includes sub (d # ds) = (starts_with sub (d # ds) \<or> str_includes sub ds)"

text \<open>The \<^verbatim>\<open>catch\<close> and \<^verbatim>\<open>finally\<close> of \<^verbatim>\<open>fetchData\<close>: the list of issues is left as it was.\<close>

definition load_failed :: "bool \<Rightarrow> fs_error \<Rightarrow> ngo_issues_view \<Rightarrow> ngo_issues_view" where
  "load_failed isMounted err pg =
     (if isMounted
      then pg\<lparr>error := Some
                (if err_code err = ''failed-precondition'' \<and> str_includes ''index'' (err_message err)
                 then ''Database index needed. Please check Firestore console for index suggestions on the 'issues' collection.''
                 else ''Failed to load relevant issues. '' @ err_message err),
              loading := False\<rparr>
      else pg)"

definition fetchData ::
  "faults \<Rightarrow> bool \<Rightarrow> string \<Rightarrow> ngo_issues_view \<Rightarrow> firestore \<Rightarrow> ngo_issues_view \<times> firestore" where
  "fetchData rejects isMounted ngoId pg st =
     (if \<not> isMounted \<or> ngoId = [] then (pg, st)
      else
        (let pg1 = pg\<lparr>loading := True, error := None\<rparr>;
             (profileSnap, st1) = getDoc_or_throw rejects ''ngo_profiles'' ngoId st
         in case profileSnap of
              Inl err \<Rightarrow> (load_failed isMounted err pg1, st1)
            | Inr None \<Rightarrow>
                (pg1\<lparr>error := Some ''Your NGO profile could not be found. Cannot load relevant issues.'',
                     loading := False\<rparr>,
                 st1)
            | Inr (Some profileData) \<Rightarrow>
                (let pg2 = pg1\<lparr>ngoProfile := Some profileData\<rparr>;
                     fetchedFocusAreas = arr_of (profileData ''focusAreas'')
                 in if length fetchedFocusAreas = 0
                    then (pg2\<lparr>issues := [], loading := False\<rparr>, st1)
                    else
                      (let (querySnapshot, st2) =
                             getDocs_or_throw rejects ''issues'' (issues_query (areasToQuery fetchedFocusAreas)) st1
                       in case querySnapshot of
                            Inl err \<Rightarrow> (load_failed isMounted err pg2, st2)
                          | Inr docs \<Rightarrow> (pg2\<lparr>issues := filter valid_issue docs, loading := False\<rparr>, st2)))))"

text \<open>What the card shows: its description line, and which issues are listed.\<close>

fun join :: "string \<Rightarrow> string list \<Rightarrow> string" where
  "join sep [] = []"
| "join sep [x] = x"
| "join sep (x # y # ys) = x @ sep @ join sep (y # ys)"

definition cardDescription :: "ngo_issues_view \<Rightarrow> string" where
  "cardDescription pg =
     (case ngoProfile pg of
        None \<Rightarrow> ''No focus areas set in your profile to filter issues.''
      | Some p \<Rightarrow>
          if p ''focusAreas'' \<noteq> None \<and> length (arr_of (p ''focusAreas'')) > 0
          then ''Showing issues matching your focus areas: '' @ join '', '' (arr_of (p ''focusAreas''))
          else ''No focus areas set in your profile to filter issues.'')"

definition visible :: "docid \<Rightarrow> ngo_issues_view \<Rightarrow> bool" where
  "visible issueId pg = (\<not> loading pg \<and> error pg = None \<and> issueId \<in> fst ` set (issues pg))"

definition fresh_issues_view :: ngo_issues_view where
  "fresh_issues_view =
     \<lparr>toasts = [], issues = [], ngoProfile = None, loading = True, error = None, updatingIssueId = None\<rparr>"

section \<open>The payload the specification gives for a claim\<close>

text \<open>
  Written from the specification's words, to be compared with \<open>claim_payload\<close>: status,
  claimant, time of the claim, pickup notes, phone number.
\<close>

definition spec_claim_payload :: "auth_user \<Rightarrow> string \<Rightarrow> string \<Rightarrow> payload" where
  "spec_claim_payload u notes phone =
     [(''status'', Put (VStr ''claimed'')),
      (''claimedByVolunteerId'', Put (VStr (uid u))),
      (''claimedAt'', ServerTimestamp),
      (''volunteerPickupNotes'', Put (VStr notes)),
      (''volunteerPhoneNumber'', Put (VStr phone))]"

section \<open>Example states\<close>

definition empty_store :: firestore where
  "empty_store = \<lparr>colls = (\<lambda>c. []), calls = [], clock = 100\<rparr>"

definition with_coll :: "string \<Rightarrow> collection \<Rightarrow> firestore \<Rightarrow> firestore" where
  "with_coll c docs st = st\<lparr>colls := (colls st)(c := docs)\<rparr>"

definition alice :: auth_user where
  "alice = \<lparr>uid = ''alice'', displayName = Some ''Alice'', email = Some ''alice@example.org''\<rparr>"

definition bob :: auth_user where
  "bob = \<lparr>uid = ''bob'', displayName = None, email = Some ''bob@example.org''\<rparr>"

definition blank_volunteer_page :: volunteer_page where
  "blank_volunteer_page =
     \<lparr>toasts = [], userProfile = None, opportunities = [], foodDonations = [],
      claimingFoodId = None, pickupNotes = [], pickupPhoneNumber = []\<rparr>"

definition soup :: document where
  "soup = [''restaurantId'' \<mapsto> VStr ''r1'', ''foodType'' \<mapsto> VStr ''soup'', ''status'' \<mapsto> VStr ''available'']"

definition claimed_soup :: document where
  "claimed_soup = soup(''status'' \<mapsto> VStr ''claimed'', ''claimedByVolunteerId'' \<mapsto> VStr ''alice'')"

definition cleanup :: document where
  "cleanup = [''title'' \<mapsto> VStr ''River cleanup'', ''spots'' \<mapsto> VNum 1, ''status'' \<mapsto> VStr ''open'',
              ''signedUpVolunteers'' \<mapsto> VArr []]"

definition full_cleanup :: document where
  "full_cleanup = cleanup(''status'' \<mapsto> VStr ''full'', ''signedUpVolunteers'' \<mapsto> VArr [''alice''])"

definition cleanup_page :: volunteer_page where
  "cleanup_page = blank_volunteer_page\<lparr>opportunities := [(''o1'', cleanup)]\<rparr>"

definition cleanup_store :: firestore where
  "cleanup_store = with_coll ''opportunities'' [(''o1'', cleanup)] empty_store"

text \<open>Two volunteers, each on a page that loaded the opportunity with its seat free.\<close>

definition alice_signs_up :: "volunteer_page \<times> firestore" where
  "alice_signs_up = clickOpportunityButton (Some alice) ''o1'' cleanup_page cleanup_store"

definition bob_signs_up :: "volunteer_page \<times> firestore" where
  "bob_signs_up = clickOpportunityButton (Some bob) ''o1'' cleanup_page (snd alice_signs_up)"

definition blank_dashboard :: dashboard_page where
  "blank_dashboard = \<lparr>toasts = [], foodRequests = [], myDonations = [], updatingId = None\<rparr>"

definition rice_request :: document where
  "rice_request = [''ngoId'' \<mapsto> VStr ''n1'', ''foodType'' \<mapsto> VStr ''rice'', ''status'' \<mapsto> VStr ''accepted'',
                   ''restaurantId'' \<mapsto> VStr ''alice'']"

text \<open>
  A stand-in for \<^verbatim>\<open>Number\<close> in the examples. It agrees with
  \<^verbatim>\<open>Number\<close> on strings of decimal digits only, and the examples apply it to
  \<^verbatim>\<open>"5"\<close> alone; on signs, fractions, exponents or blanks it answers
  \<^verbatim>\<open>NaN\<close> where \<^verbatim>\<open>Number\<close> need not. The theorems about the success
  page do not use it: they hold for any reading of \<^verbatim>\<open>Number\<close>.
\<close>

definition digit :: "char \<Rightarrow> nat option" where
  "digit c = (let n = of_char c in if (48::nat) \<le> n \<and> n \<le> 57 then Some (n - 48) else None)"

fun digits_value :: "nat \<Rightarrow> string \<Rightarrow> nat option" where
  "digits_value acc [] = Some acc"
| "digits_value acc (c # cs) = (case digit c of None \<Rightarrow> None | Some k \<Rightarrow> digits_value (10 * acc + k) cs)"

definition decimal_number :: "string \<Rightarrow> int option" where
  "decimal_number s = map_option int (digits_value 0 s)"

definition paid :: "string \<Rightarrow> string option" where
  "paid = [''session_id'' \<mapsto> ''cs_test_1'', ''amount'' \<mapsto> ''5'']"

definition donor_store :: firestore where
  "donor_store = with_coll ''users'' [(''alice'', [''name'' \<mapsto> VStr ''Alice'', ''totalDonated'' \<mapsto> VNum 10])] empty_store"

text \<open>The success page opened twice with the same address.\<close>

definition first_visit :: "success_page \<times> firestore" where
  "first_visit =
     updateDonationCount decimal_number False (Some alice) paid True True fresh_success_page donor_store"

definition second_visit :: "success_page \<times> firestore" where
  "second_visit =
     updateDonationCount decimal_number False (Some alice) paid True True fresh_success_page (snd first_visit)"

text \<open>A store that answers every call, and one that rejects the query on issues.\<close>

definition no_faults :: faults where
  "no_faults = (\<lambda>c. None)"

definition index_missing :: fs_error where
  "index_missing = \<lparr>err_code = ''failed-precondition'', err_message = ''The query requires an index.''\<rparr>"

fun query_rejected :: faults where
  "query_rejected (GetDocs c q) = Some index_missing"
| "query_rejected _ = None"

definition roof :: document where
  "roof = [''title'' \<mapsto> VStr ''School roof leaks'', ''category'' \<mapsto> VStr ''education'',
              ''location'' \<mapsto> VStr ''Ward 4'', ''reporterId'' \<mapsto> VStr ''carol'',
              ''timestamp'' \<mapsto> VTime 40, ''status'' \<mapsto> VStr ''pending'']"

definition resolved_roof :: document where
  "resolved_roof = roof(''status'' \<mapsto> VStr ''resolved'')"

definition ngo_store :: "string list \<Rightarrow> document \<Rightarrow> firestore" where
  "ngo_store focusAreas issue =
     with_coll ''ngo_profiles'' [(''ngo1'', [''orgName'' \<mapsto> VStr ''Helping Hands'', ''focusAreas'' \<mapsto> VArr focusAreas])]
       (with_coll ''issues'' [(''i1'', issue)] empty_store)"

definition thirty_one_areas :: "string list" where
  "thirty_one_areas =
     [''c01'', ''c02'', ''c03'', ''c04'', ''c05'', ''c06'', ''c07'', ''c08'', ''c09'', ''c10'',
      ''c11'', ''c12'', ''c13'', ''c14'', ''c15'', ''c16'', ''c17'', ''c18'', ''c19'', ''c20'',
      ''c21'', ''c22'', ''c23'', ''c24'', ''c25'', ''c26'', ''c27'', ''c28'', ''c29'', ''c30'',
      ''c31'']"

definition issue_in :: "string \<Rightarrow> document" where
  "issue_in cat = roof(''category'' \<mapsto> VStr cat)"

section \<open>Basic facts about the store\<close>

lemma map_of_replace_doc:
  "map_of (replace_doc i d' c) j =
     (if j = i \<and> map_of c i \<noteq> None then Some d' else map_of c j)"
  by (induction c) auto

text \<open>
  Whatever the project's id, the message of a rejected update is not empty, so a handler's
  \<^verbatim>\<open>err.message || "..."\<close> shows the message and not its fallback.
\<close>

lemma or_str_not_found_message: "or_str (Some (not_found_message c i)) fallback = not_found_message c i"
  by (simp add: not_found_message_def)

section \<open>Claiming a donation\<close>

text \<open>
  C10. When the donation document is missing, and equally when it exists with a status
  other than \<open>available\<close>, \<^verbatim>\<open>handleClaimFood\<close> ends with one and the same
  "Claim Failed" toast carrying the message "This donation is no longer available or
  does not exist."; no collection changes and the only call the store receives is the
  read.
\<close>

theorem handleClaimFood_missing_same_as_unavailable:
  assumes "map_of (colls st ''food_donations'') donationId = None
           \<or> (\<exists>d. map_of (colls st ''food_donations'') donationId = Some d
                  \<and> d ''status'' \<noteq> Some (VStr ''available''))"
  shows "handleClaimFood (Some u) donationId notes phoneNumber pg st =
           (pg\<lparr>claimingFoodId := None,
               toasts := toasts pg @
                 [Toast ''Claim Failed''
                    (Some ''This donation is no longer available or does not exist.'')
                    (Some ''destructive'')]\<rparr>,
            st\<lparr>calls := calls st @ [GetDoc ''food_donations'' donationId]\<rparr>)"
  using assms
  by (auto simp: handleClaimFood_def getDoc_def claim_failed_def say_def)

text \<open>
  Witness for C10: bob tries a donation that does not exist and one that alice has
  claimed; the toasts are the same, the collections are untouched, the store saw one read.
\<close>

theorem handleClaimFood_missing_same_as_unavailable_witness:
  "(map_of (colls (with_coll ''food_donations'' [(''d1'', claimed_soup)] empty_store) ''food_donations'') ''d2'' = None
    \<or> (\<exists>d. map_of (colls (with_coll ''food_donations'' [(''d1'', claimed_soup)] empty_store) ''food_donations'') ''d2'' = Some d
           \<and> d ''status'' \<noteq> Some (VStr ''available'')))
   \<and> (map_of (colls (with_coll ''food_donations'' [(''d1'', claimed_soup)] empty_store) ''food_donations'') ''d1'' = None
    \<or> (\<exists>d. map_of (colls (with_coll ''food_donations'' [(''d1'', claimed_soup)] empty_store) ''food_donations'') ''d1'' = Some d
           \<and> d ''status'' \<noteq> Some (VStr ''available'')))
   \<and> toasts (fst (handleClaimFood (Some bob) ''d2'' ''at 7 pm'' ''555'' blank_volunteer_page
                (with_coll ''food_donations'' [(''d1'', claimed_soup)] empty_store)))
       = toasts (fst (handleClaimFood (Some bob) ''d1'' ''at 7 pm'' ''555'' blank_volunteer_page
                (with_coll ''food_donations'' [(''d1'', claimed_soup)] empty_store)))
   \<and> colls (snd (handleClaimFood (Some bob) ''d2'' ''at 7 pm'' ''555'' blank_volunteer_page
                (with_coll ''food_donations'' [(''d1'', claimed_soup)] empty_store)))
       = colls (with_coll ''food_donations'' [(''d1'', claimed_soup)] empty_store)
   \<and> calls (snd (handleClaimFood (Some bob) ''d2'' ''at 7 pm'' ''555'' blank_volunteer_page
                (with_coll ''food_donations'' [(''d1'', claimed_soup)] empty_store)))
       = [GetDoc ''food_donations'' ''d2'']"
proof -
  let ?st = "with_coll ''food_donations'' [(''d1'', claimed_soup)] empty_store"
  have missing: "map_of (colls ?st ''food_donations'') ''d2'' = None
    \<or> (\<exists>d. map_of (colls ?st ''food_donations'') ''d2'' = Some d \<and> d ''status'' \<noteq> Some (VStr ''available''))"
    by (simp add: with_coll_def empty_store_def)
  have taken: "map_of (colls ?st ''food_donations'') ''d1'' = None
    \<or> (\<exists>d. map_of (colls ?st ''food_donations'') ''d1'' = Some d \<and> d ''status'' \<noteq> Some (VStr ''available''))"
    by (simp add: with_coll_def empty_store_def claimed_soup_def soup_def)
  have no_calls: "calls ?st = []"
    by (simp add: with_coll_def empty_store_def)
  show ?thesis
    using missing taken no_calls
      handleClaimFood_missing_same_as_unavailable [OF missing, of bob "''at 7 pm''" "''555''" blank_volunteer_page]
      handleClaimFood_missing_same_as_unavailable [OF taken, of bob "''at 7 pm''" "''555''" blank_volunteer_page]
    by simp
qed

text \<open>
  C2 (as the code has it). \<^verbatim>\<open>handleClaimFood\<close> first reads the donation. If the
  read shows \<open>available\<close> it then issues one update that sets status \<open>claimed\<close>, the
  claimant's id, the claimant's display name (\<open>volunteerName\<close>), the server's time,
  the pickup notes and the phone number, and leaves every other field; otherwise it
  ends with "Claim Failed" after the read alone, with no write and no second attempt.
\<close>

theorem handleClaimFood_read_verify_write:
  assumes "map_of (colls st ''food_donations'') donationId = Some d"
  shows "handleClaimFood (Some u) donationId notes phoneNumber pg st =
     (if d ''status'' = Some (VStr ''available'')
      then
        (pg\<lparr>toasts := toasts pg @ [Toast ''Donation Claimed!'' (Some ''Please arrange pickup as per instructions.'') None],
            foodDonations := filter (\<lambda>e. fst e \<noteq> donationId) (foodDonations pg),
            pickupNotes := [], pickupPhoneNumber := [], claimingFoodId := None\<rparr>,
         st\<lparr>colls := (colls st)(''food_donations'' :=
                 replace_doc donationId
                   (d(''status'' \<mapsto> VStr ''claimed'',
                      ''claimedByVolunteerId'' \<mapsto> VStr (uid u),
                      ''volunteerName'' \<mapsto> volunteerName_of (userProfile pg) u,
                      ''claimedAt'' \<mapsto> VTime (clock st),
                      ''volunteerPickupNotes'' \<mapsto> VStr notes,
                      ''volunteerPhoneNumber'' \<mapsto> VStr phoneNumber))
                   (colls st ''food_donations'')),
            calls := calls st @
              [GetDoc ''food_donations'' donationId,
               UpdateDoc ''food_donations'' donationId (claim_payload (userProfile pg) u notes phoneNumber)]\<rparr>)
      else
        (pg\<lparr>claimingFoodId := None,
            toasts := toasts pg @
              [Toast ''Claim Failed'' (Some ''This donation is no longer available or does not exist.'') (Some ''destructive'')]\<rparr>,
         st\<lparr>calls := calls st @ [GetDoc ''food_donations'' donationId]\<rparr>))"
  using assms
  by (simp add: handleClaimFood_def getDoc_def updateDoc_def claim_failed_def say_def claim_payload_def)

text \<open>Witness for C2: bob claims the available soup.\<close>

theorem handleClaimFood_read_verify_write_witness:
  "map_of (colls (with_coll ''food_donations'' [(''d1'', soup)] empty_store) ''food_donations'') ''d1'' = Some soup
   \<and> (let r = handleClaimFood (Some bob) ''d1'' ''at 7 pm'' ''555'' blank_volunteer_page
                (with_coll ''food_donations'' [(''d1'', soup)] empty_store);
           d' = the (map_of (colls (snd r) ''food_donations'') ''d1'')
       in d' ''status'' = Some (VStr ''claimed'') \<and> d' ''claimedByVolunteerId'' = Some (VStr ''bob'')
          \<and> d' ''volunteerName'' = Some (VStr ''bob@example.org'')
          \<and> d' ''claimedAt'' = Some (VTime 100) \<and> d' ''foodType'' = Some (VStr ''soup'')
          \<and> length (calls (snd r)) = 2)"
proof -
  have h: "map_of (colls (with_coll ''food_donations'' [(''d1'', soup)] empty_store) ''food_donations'') ''d1'' = Some soup"
    by (simp add: with_coll_def empty_store_def)
  show ?thesis
    using h handleClaimFood_read_verify_write [OF h, of bob "''at 7 pm''" "''555''" blank_volunteer_page]
    by (simp add: soup_def with_coll_def empty_store_def bob_def blank_volunteer_page_def volunteerName_of_def Let_def)
qed

text \<open>
  C2 as stated fails: the document after a successful claim is not the old document
  with exactly the five listed fields set, since \<open>volunteerName\<close> is written too.
\<close>

theorem handleClaimFood_payload_counterexample:
  "map_of (colls (with_coll ''food_donations'' [(''d1'', soup)] empty_store) ''food_donations'') ''d1'' = Some soup
   \<and> soup ''status'' = Some (VStr ''available'')
   \<and> map_of (colls (snd (handleClaimFood (Some bob) ''d1'' ''at 7 pm'' ''555'' blank_volunteer_page
                (with_coll ''food_donations'' [(''d1'', soup)] empty_store))) ''food_donations'') ''d1''
       \<noteq> Some (apply_payload 100 (spec_claim_payload bob ''at 7 pm'' ''555'') soup)
   \<and> the (map_of (colls (snd (handleClaimFood (Some bob) ''d1'' ''at 7 pm'' ''555'' blank_volunteer_page
                (with_coll ''food_donations'' [(''d1'', soup)] empty_store))) ''food_donations'') ''d1'') ''volunteerName''
       = Some (VStr ''bob@example.org'')
   \<and> apply_payload 100 (spec_claim_payload bob ''at 7 pm'' ''555'') soup ''volunteerName'' = None"
proof -
  let ?r = "handleClaimFood (Some bob) ''d1'' ''at 7 pm'' ''555'' blank_volunteer_page
                (with_coll ''food_donations'' [(''d1'', soup)] empty_store)"
  let ?d = "map_of (colls (snd ?r) ''food_donations'') ''d1''"
  have got: "the ?d ''volunteerName'' = Some (VStr ''bob@example.org'')"
    by (simp add: handleClaimFood_def getDoc_def updateDoc_def claim_failed_def say_def claim_payload_def
          soup_def with_coll_def empty_store_def bob_def blank_volunteer_page_def volunteerName_of_def)
  have want: "apply_payload 100 (spec_claim_payload bob ''at 7 pm'' ''555'') soup ''volunteerName'' = None"
    by (simp add: spec_claim_payload_def soup_def)
  have "?d \<noteq> Some (apply_payload 100 (spec_claim_payload bob ''at 7 pm'' ''555'') soup)"
  proof
    assume "?d = Some (apply_payload 100 (spec_claim_payload bob ''at 7 pm'' ''555'') soup)"
    then have "the ?d ''volunteerName'' = apply_payload 100 (spec_claim_payload bob ''at 7 pm'' ''555'') soup ''volunteerName''"
      by simp
    with got want show False by simp
  qed
  moreover have "map_of (colls (with_coll ''food_donations'' [(''d1'', soup)] empty_store) ''food_donations'') ''d1'' = Some soup"
    by (simp add: with_coll_def empty_store_def)
  moreover have "soup ''status'' = Some (VStr ''available'')" by (simp add: soup_def)
  ultimately show ?thesis using got want by blast
qed

section \<open>Signing up and cancelling\<close>

text \<open>
  With the page's copy equal to the stored document, and a capacity on it, a sign-up
  keeps the stored list within the stored capacity.
\<close>

lemma handleSignUp_fresh_keeps_bound:
  assumes stored: "map_of (colls st ''opportunities'') opportunityId = Some d"
    and spots: "spots_of (d ''spots'') = Some n"
    and bounded: "int (length (arr_of (d ''signedUpVolunteers''))) \<le> n"
    and after: "map_of (colls (snd (handleSignUp user opportunityId (spots_of (d ''spots''))
                   (Some (arr_of (d ''signedUpVolunteers''))) pg st)) ''opportunities'') opportunityId = Some d'"
  shows "spots_of (d' ''spots'') = Some n \<and> int (length (arr_of (d' ''signedUpVolunteers''))) \<le> n"
  using stored spots bounded after
  by (cases user)
     (auto simp: handleSignUp_def updateDoc_def say_def signUp_payload_def Let_def map_of_replace_doc
           split: if_splits)

text \<open>The status is written only when the copy's length plus one reaches the capacity.\<close>

lemma signUp_payload_below_capacity:
  "signUp_payload bob (Some 3) [] = [(''signedUpVolunteers'', ArrayUnion [''bob''])]"
  by (simp add: signUp_payload_def bob_def)

lemma signUp_payload_at_capacity:
  "signUp_payload bob (Some 3) [''alice'', ''carol''] =
     [(''signedUpVolunteers'', ArrayUnion [''bob'']), (''status'', Put (VStr ''full''))]"
  by (simp add: signUp_payload_def bob_def)

lemma signUp_payload_no_capacity:
  "signUp_payload bob None [''alice'', ''carol''] = [(''signedUpVolunteers'', ArrayUnion [''bob''])]"
  by (simp add: signUp_payload_def bob_def)

text \<open>
  C1. The bound \<open>|signedUpVolunteers| \<le> spots\<close> is broken by two volunteers whose
  pages both loaded the opportunity while its single seat was free: each page's check
  passes on its own copy, both updates are accepted, and the stored list ends with two
  members for one spot.
\<close>

theorem stale_signups_exceed_spots:
  "map_of (colls cleanup_store ''opportunities'') ''o1'' = map_of (opportunities cleanup_page) ''o1''
   \<and> toasts (fst alice_signs_up) = [Toast ''Sign Up Successful!'' (Some ''You're registered for the opportunity.'') None]
   \<and> toasts (fst bob_signs_up) = [Toast ''Sign Up Successful!'' (Some ''You're registered for the opportunity.'') None]
   \<and> the (map_of (colls (snd bob_signs_up) ''opportunities'') ''o1'') ''signedUpVolunteers''
       = Some (VArr [''alice'', ''bob''])
   \<and> the (map_of (colls (snd bob_signs_up) ''opportunities'') ''o1'') ''spots'' = Some (VNum 1)
   \<and> card (set (arr_of (the (map_of (colls (snd bob_signs_up) ''opportunities'') ''o1'') ''signedUpVolunteers''))) = 2"
  by (simp add: bob_signs_up_def alice_signs_up_def clickOpportunityButton_def isUserSignedUp_def
        signUpDisabled_def handleSignUp_def updateDoc_def say_def signUp_payload_def cleanup_store_def
        cleanup_page_def cleanup_def with_coll_def empty_store_def alice_def bob_def
        blank_volunteer_page_def Let_def)

text \<open>
  C3. The update of \<^verbatim>\<open>handleSignUp\<close> is not conditioned on the stored document
  matching what was read. Here the stored opportunity already holds alice and is full,
  while bob's page still has the copy with the seat free: his sign-up is one
  \<^verbatim>\<open>updateDoc\<close>, sent without a read before it and accepted, with no re-check
  against the stored state, no retry and no conflict reported. The page says "Sign Up
  Successful!" and the stored list has two members for one spot.
\<close>

theorem handleSignUp_commits_on_stale_copy:
  "map_of (colls (with_coll ''opportunities'' [(''o1'', full_cleanup)] empty_store) ''opportunities'') ''o1'' = Some full_cleanup
   \<and> full_cleanup ''signedUpVolunteers'' = Some (VArr [''alice''])
   \<and> full_cleanup ''spots'' = Some (VNum 1)
   \<and> full_cleanup ''status'' = Some (VStr ''full'')
   \<and> toasts (fst (handleSignUp (Some bob) ''o1'' (Some 1) (Some []) blank_volunteer_page
                (with_coll ''opportunities'' [(''o1'', full_cleanup)] empty_store)))
       = [Toast ''Sign Up Successful!'' (Some ''You're registered for the opportunity.'') None]
   \<and> calls (snd (handleSignUp (Some bob) ''o1'' (Some 1) (Some []) blank_volunteer_page
                (with_coll ''opportunities'' [(''o1'', full_cleanup)] empty_store)))
       = [UpdateDoc ''opportunities'' ''o1'' [(''signedUpVolunteers'', ArrayUnion [''bob'']), (''status'', Put (VStr ''full''))]]
   \<and> the (map_of (colls (snd (handleSignUp (Some bob) ''o1'' (Some 1) (Some []) blank_volunteer_page
                (with_coll ''opportunities'' [(''o1'', full_cleanup)] empty_store))) ''opportunities'') ''o1'') ''signedUpVolunteers''
       = Some (VArr [''alice'', ''bob''])"
  by (simp add: handleSignUp_def updateDoc_def say_def signUp_payload_def full_cleanup_def cleanup_def Let_def
        with_coll_def empty_store_def bob_def blank_volunteer_page_def)

text \<open>
  C4 (as the code has it). On an existing opportunity \<^verbatim>\<open>handleCancelSignUp\<close>
  removes the user from the stored list and sets status \<open>open\<close>, whatever the list
  and the status were, and reports "Sign Up Cancelled"; it does not look whether the
  user was signed up.
\<close>

theorem handleCancelSignUp_always_reopens:
  assumes "map_of (colls st ''opportunities'') opportunityId = Some d"
  shows "handleCancelSignUp (Some u) opportunityId pg st =
     (pg\<lparr>toasts := toasts pg @ [Toast ''Sign Up Cancelled'' (Some ''You are no longer registered.'') None],
         opportunities := map (cancelled_locally opportunityId (uid u)) (opportunities pg)\<rparr>,
      st\<lparr>colls := (colls st)(''opportunities'' :=
              replace_doc opportunityId
                (d(''signedUpVolunteers'' \<mapsto> VArr (filter (\<lambda>x. x \<noteq> uid u) (arr_of (d ''signedUpVolunteers''))),
                   ''status'' \<mapsto> VStr ''open''))
                (colls st ''opportunities'')),
         calls := calls st @ [UpdateDoc ''opportunities'' opportunityId (cancel_payload u)]\<rparr>)"
  using assms
  by (simp add: handleCancelSignUp_def updateDoc_def say_def cancel_payload_def Let_def)

text \<open>
  Witness for C4: alice cancels her seat on the full opportunity.
\<close>

theorem handleCancelSignUp_always_reopens_witness:
  "map_of (colls (with_coll ''opportunities'' [(''o1'', full_cleanup)] empty_store) ''opportunities'') ''o1'' = Some full_cleanup
   \<and> (let r = handleCancelSignUp (Some alice) ''o1'' blank_volunteer_page
                (with_coll ''opportunities'' [(''o1'', full_cleanup)] empty_store);
           d' = the (map_of (colls (snd r) ''opportunities'') ''o1'')
       in d' ''signedUpVolunteers'' = Some (VArr []) \<and> d' ''status'' = Some (VStr ''open'')
          \<and> d' ''spots'' = Some (VNum 1)
          \<and> toasts (fst r) = [Toast ''Sign Up Cancelled'' (Some ''You are no longer registered.'') None])"
proof -
  have h: "map_of (colls (with_coll ''opportunities'' [(''o1'', full_cleanup)] empty_store) ''opportunities'') ''o1'' = Some full_cleanup"
    by (simp add: with_coll_def empty_store_def)
  show ?thesis
    using h handleCancelSignUp_always_reopens [OF h, of alice blank_volunteer_page]
    by (simp add: with_coll_def empty_store_def alice_def blank_volunteer_page_def full_cleanup_def cleanup_def Let_def)
qed

text \<open>
  C4 as stated fails in its last part: bob is not signed up, yet his cancellation
  succeeds, leaves alice in the list and reopens the full opportunity.
\<close>

theorem handleCancelSignUp_not_signed_up_counterexample:
  "''bob'' \<notin> set (arr_of (full_cleanup ''signedUpVolunteers''))
   \<and> toasts (fst (handleCancelSignUp (Some bob) ''o1'' blank_volunteer_page
                (with_coll ''opportunities'' [(''o1'', full_cleanup)] empty_store)))
       = [Toast ''Sign Up Cancelled'' (Some ''You are no longer registered.'') None]
   \<and> the (map_of (colls (snd (handleCancelSignUp (Some bob) ''o1'' blank_volunteer_page
                (with_coll ''opportunities'' [(''o1'', full_cleanup)] empty_store))) ''opportunities'') ''o1'') ''status''
       = Some (VStr ''open'')
   \<and> the (map_of (colls (snd (handleCancelSignUp (Some bob) ''o1'' blank_volunteer_page
                (with_coll ''opportunities'' [(''o1'', full_cleanup)] empty_store))) ''opportunities'') ''o1'') ''signedUpVolunteers''
       = Some (VArr [''alice''])"
  by (simp add: handleCancelSignUp_def updateDoc_def say_def cancel_payload_def full_cleanup_def cleanup_def
        with_coll_def empty_store_def bob_def blank_volunteer_page_def Let_def)

section \<open>Withdrawing a donation, answering a request\<close>

text \<open>
  C5 (as the code has it). \<^verbatim>\<open>markDonationUnavailable\<close> reads nothing and
  checks neither status nor owner: on any existing donation it sets status
  \<open>unavailable\<close>, leaves every other field and reports "Donation Updated".
\<close>

theorem markDonationUnavailable_unchecked:
  assumes "map_of (colls st ''food_donations'') donationId = Some d"
  shows "markDonationUnavailable donationId pg st =
     (pg\<lparr>toasts := toasts pg @ [Toast ''Donation Updated'' (Some ''Marked as unavailable.'') None],
         myDonations := map (marked_locally donationId) (myDonations pg),
         updatingId := None\<rparr>,
      st\<lparr>colls := (colls st)(''food_donations'' :=
              replace_doc donationId (d(''status'' \<mapsto> VStr ''unavailable'')) (colls st ''food_donations'')),
         calls := calls st @ [UpdateDoc ''food_donations'' donationId [(''status'', Put (VStr ''unavailable''))]]\<rparr>)"
  using assms
  by (simp add: markDonationUnavailable_def updateDoc_def say_def Let_def)

text \<open>
  Witness for C5: an available donation is withdrawn.
\<close>

theorem markDonationUnavailable_unchecked_witness:
  "map_of (colls (with_coll ''food_donations'' [(''d1'', soup)] empty_store) ''food_donations'') ''d1'' = Some soup
   \<and> markDonationUnavailable ''d1'' blank_dashboard (with_coll ''food_donations'' [(''d1'', soup)] empty_store)
     = (blank_dashboard\<lparr>toasts := [Toast ''Donation Updated'' (Some ''Marked as unavailable.'') None]\<rparr>,
        \<lparr>colls = (\<lambda>c. [])(''food_donations'' := [(''d1'', soup(''status'' \<mapsto> VStr ''unavailable''))]),
         calls = [UpdateDoc ''food_donations'' ''d1'' [(''status'', Put (VStr ''unavailable''))]],
         clock = 100\<rparr>)"
proof -
  have h: "map_of (colls (with_coll ''food_donations'' [(''d1'', soup)] empty_store) ''food_donations'') ''d1'' = Some soup"
    by (simp add: with_coll_def empty_store_def)
  show ?thesis
    using h markDonationUnavailable_unchecked [OF h, of blank_dashboard]
    by (simp add: with_coll_def empty_store_def blank_dashboard_def)
qed

text \<open>
  C5 as stated fails: on a donation that alice has already claimed the call succeeds
  and overwrites the status.
\<close>

theorem markDonationUnavailable_claimed_counterexample:
  "claimed_soup ''status'' = Some (VStr ''claimed'')
   \<and> toasts (fst (markDonationUnavailable ''d1'' blank_dashboard
                (with_coll ''food_donations'' [(''d1'', claimed_soup)] empty_store)))
       = [Toast ''Donation Updated'' (Some ''Marked as unavailable.'') None]
   \<and> the (map_of (colls (snd (markDonationUnavailable ''d1'' blank_dashboard
                (with_coll ''food_donations'' [(''d1'', claimed_soup)] empty_store))) ''food_donations'') ''d1'') ''status''
       = Some (VStr ''unavailable'')"
  by (simp add: markDonationUnavailable_def updateDoc_def say_def claimed_soup_def soup_def
        with_coll_def empty_store_def blank_dashboard_def Let_def)

text \<open>
  C9 (as the code has it). \<^verbatim>\<open>handleVerification\<close> writes the verdict
  (\<open>accepted\<close> or \<open>rejected\<close>), the acting user's id and name and the server's time
  onto any existing request; the request's current status is not read.
\<close>

theorem handleVerification_overwrites:
  assumes "map_of (colls st ''food_requests'') requestId = Some d"
  shows "handleVerification (Some u) requestId status pg st =
     (pg\<lparr>toasts := toasts pg @
             [Toast (''Request '' @ verdict_str status) (Some (''Food request has been '' @ verdict_str status @ ''.'')) None],
         foodRequests := filter (\<lambda>req. fst req \<noteq> requestId) (foodRequests pg),
         updatingId := None\<rparr>,
      st\<lparr>colls := (colls st)(''food_requests'' :=
              replace_doc requestId
                (d(''status'' \<mapsto> VStr (verdict_str status),
                   ''restaurantId'' \<mapsto> VStr (uid u),
                   ''restaurantName'' \<mapsto> VStr (or_str (displayName u) (or_str (email u) ''Restaurant'')),
                   ''updatedAt'' \<mapsto> VTime (clock st)))
                (colls st ''food_requests'')),
         calls := calls st @ [UpdateDoc ''food_requests'' requestId (verification_payload u status)]\<rparr>)"
  using assms
  by (simp add: handleVerification_def updateDoc_def say_def verification_payload_def Let_def)

text \<open>
  Witness for C9: bob accepts a pending request.
\<close>

theorem handleVerification_overwrites_witness:
  "map_of (colls (with_coll ''food_requests'' [(''q1'', rice_request(''status'' \<mapsto> VStr ''pending''))] empty_store) ''food_requests'') ''q1''
     = Some (rice_request(''status'' \<mapsto> VStr ''pending''))
   \<and> (let r = handleVerification (Some bob) ''q1'' Accepted blank_dashboard
                (with_coll ''food_requests'' [(''q1'', rice_request(''status'' \<mapsto> VStr ''pending''))] empty_store);
           d' = the (map_of (colls (snd r) ''food_requests'') ''q1'')
       in d' ''status'' = Some (VStr ''accepted'') \<and> d' ''restaurantId'' = Some (VStr ''bob'')
          \<and> d' ''restaurantName'' = Some (VStr ''bob@example.org'') \<and> d' ''updatedAt'' = Some (VTime 100)
          \<and> d' ''ngoId'' = Some (VStr ''n1''))"
proof -
  have h: "map_of (colls (with_coll ''food_requests'' [(''q1'', rice_request(''status'' \<mapsto> VStr ''pending''))] empty_store) ''food_requests'') ''q1''
     = Some (rice_request(''status'' \<mapsto> VStr ''pending''))"
    by (simp add: with_coll_def empty_store_def)
  show ?thesis
    using h handleVerification_overwrites [OF h, of bob Accepted blank_dashboard]
    by (simp add: with_coll_def empty_store_def bob_def blank_dashboard_def rice_request_def Let_def)
qed

text \<open>
  C9 as stated fails: a request alice's restaurant has accepted is turned to
  \<open>rejected\<close> by bob, whose dashboard still lists it.
\<close>

theorem handleVerification_terminal_counterexample:
  "rice_request ''status'' = Some (VStr ''accepted'') \<and> rice_request ''restaurantId'' = Some (VStr ''alice'')
   \<and> the (map_of (colls (snd (handleVerification (Some bob) ''q1'' Rejected blank_dashboard
                (with_coll ''food_requests'' [(''q1'', rice_request)] empty_store))) ''food_requests'') ''q1'') ''status''
       = Some (VStr ''rejected'')
   \<and> the (map_of (colls (snd (handleVerification (Some bob) ''q1'' Rejected blank_dashboard
                (with_coll ''food_requests'' [(''q1'', rice_request)] empty_store))) ''food_requests'') ''q1'') ''restaurantId''
       = Some (VStr ''bob'')"
  by (simp add: handleVerification_def updateDoc_def say_def verification_payload_def rice_request_def
        with_coll_def empty_store_def bob_def blank_dashboard_def Let_def)

section \<open>Counting a payment\<close>

lemma updateDonationCount_not_idle_noop:
  "updateStatus pg \<noteq> Idle \<Longrightarrow>
   updateDonationCount toNumber authLoading user searchParams isMounted isMounted_after pg st = (pg, st)"
  by (simp add: updateDonationCount_def split: option.splits)

text \<open>
  C6 (as the code has it). On one page, a run with a session id and a positive amount
  adds the amount to the user's \<open>totalDonated\<close> with one \<^verbatim>\<open>increment\<close>, and
  every later run on that page, with any arguments, changes neither the page nor the
  store: the page's status has left \<open>idle\<close>. The session id is only tested for
  presence.
\<close>

theorem updateDonationCount_once_per_page:
  assumes "updateStatus pg = Idle"
    and "searchParams ''session_id'' = Some sessionId" and "sessionId \<noteq> []"
    and "searchParams ''amount'' = Some amountStr" and "amountStr \<noteq> []"
    and "toNumber amountStr = Some amount" and "0 < amount"
    and "map_of (colls st ''users'') (uid u) = Some d"
  shows "snd (updateDonationCount toNumber False (Some u) searchParams True isMounted_after pg st) =
           st\<lparr>colls := (colls st)(''users'' :=
                   replace_doc (uid u) (d(''totalDonated'' \<mapsto> VNum (num_of (d ''totalDonated'') + amount)))
                     (colls st ''users'')),
              calls := calls st @ [UpdateDoc ''users'' (uid u) [(''totalDonated'', Increment amount)]]\<rparr>
         \<and> updateDonationCount toNumber' authLoading' user' searchParams' isMounted' isMounted_after'
              (fst (updateDonationCount toNumber False (Some u) searchParams True isMounted_after pg st)) st'
            = (fst (updateDonationCount toNumber False (Some u) searchParams True isMounted_after pg st), st')"
proof -
  let ?r = "updateDonationCount toNumber False (Some u) searchParams True isMounted_after pg st"
  have run: "?r =
    (if isMounted_after
     then (say (Toast ''Leaderboard Updated'' (Some ''Your contribution is reflected!'') None)
             (pg\<lparr>updateStatus := Pending, errorMessage := None\<rparr>))\<lparr>updateStatus := Success\<rparr>
     else pg\<lparr>updateStatus := Pending, errorMessage := None\<rparr>,
     st\<lparr>colls := (colls st)(''users'' :=
                   replace_doc (uid u) (d(''totalDonated'' \<mapsto> VNum (num_of (d ''totalDonated'') + amount)))
                     (colls st ''users'')),
              calls := calls st @ [UpdateDoc ''users'' (uid u) [(''totalDonated'', Increment amount)]]\<rparr>)"
    using assms by (simp add: updateDonationCount_def updateDoc_def Let_def)
  have "updateStatus (fst ?r) \<noteq> Idle"
    by (simp add: run say_def)
  then show ?thesis
    by (simp add: updateDonationCount_not_idle_noop) (simp add: run)
qed

text \<open>
  Witness for C6: the effect runs twice on the same page, the total goes from 10 to 15.
\<close>

theorem updateDonationCount_once_per_page_witness:
  "updateStatus fresh_success_page = Idle
   \<and> paid ''session_id'' = Some ''cs_test_1'' \<and> ''cs_test_1'' \<noteq> []
   \<and> paid ''amount'' = Some ''5'' \<and> ''5'' \<noteq> [] \<and> decimal_number ''5'' = Some 5 \<and> (0::int) < 5
   \<and> map_of (colls donor_store ''users'') ''alice'' = Some [''name'' \<mapsto> VStr ''Alice'', ''totalDonated'' \<mapsto> VNum 10]
   \<and> (let (pg1, st1) = updateDonationCount decimal_number False (Some alice) paid True True fresh_success_page donor_store;
           (pg2, st2) = updateDonationCount decimal_number False (Some alice) paid True True pg1 st1
       in the (map_of (colls st2 ''users'') ''alice'') ''totalDonated'' = Some (VNum 15)
          \<and> calls st2 = [UpdateDoc ''users'' ''alice'' [(''totalDonated'', Increment 5)]])"
proof -
  have h1: "updateStatus fresh_success_page = Idle" by (simp add: fresh_success_page_def)
  have h2: "paid ''session_id'' = Some ''cs_test_1''" by (simp add: paid_def)
  have h3: "''cs_test_1'' \<noteq> []" by simp
  have h4: "paid ''amount'' = Some ''5''" by (simp add: paid_def)
  have h5: "''5'' \<noteq> []" by simp
  have h6: "decimal_number ''5'' = Some 5" by (simp add: decimal_number_def digit_def)
  have h7: "(0::int) < 5" by simp
  have h8: "map_of (colls donor_store ''users'') (uid alice) = Some [''name'' \<mapsto> VStr ''Alice'', ''totalDonated'' \<mapsto> VNum 10]"
    by (simp add: donor_store_def with_coll_def empty_store_def alice_def)
  note t = updateDonationCount_once_per_page
    [where pg = fresh_success_page and searchParams = paid and toNumber = decimal_number and u = alice
       and st = donor_store and isMounted_after = True and toNumber' = decimal_number
       and authLoading' = False and user' = "Some alice" and searchParams' = paid
       and isMounted' = True and isMounted_after' = True
       and st' = "snd (updateDonationCount decimal_number False (Some alice) paid True True fresh_success_page donor_store)",
     OF h1 h2 h3 h4 h5 h6 h7 h8]
  let ?r = "updateDonationCount decimal_number False (Some alice) paid True True fresh_success_page donor_store"
  from t [THEN conjunct2] have again: "updateDonationCount decimal_number False (Some alice) paid True True (fst ?r) (snd ?r) = ?r"
    by simp
  from t [THEN conjunct1] have "the (map_of (colls (snd ?r) ''users'') ''alice'') ''totalDonated'' = Some (VNum 15)
      \<and> calls (snd ?r) = [UpdateDoc ''users'' ''alice'' [(''totalDonated'', Increment 5)]]"
    by (simp add: donor_store_def with_coll_def empty_store_def alice_def)
  with again have "(let (pg1, st1) = ?r;
           (pg2, st2) = updateDonationCount decimal_number False (Some alice) paid True True pg1 st1
       in the (map_of (colls st2 ''users'') ''alice'') ''totalDonated'' = Some (VNum 15)
          \<and> calls st2 = [UpdateDoc ''users'' ''alice'' [(''totalDonated'', Increment 5)]])"
    by (simp add: split_beta)
  with h1 h2 h4 h6 h8 show ?thesis
    by (simp add: alice_def)
qed

text \<open>
  C6 as stated fails: the same address, with the same session id, opened a second
  time starts a fresh page, and the amount is added again (10 becomes 20).
\<close>

theorem reload_increments_again_counterexample:
  "the (map_of (colls donor_store ''users'') ''alice'') ''totalDonated'' = Some (VNum 10)
   \<and> the (map_of (colls (snd first_visit) ''users'') ''alice'') ''totalDonated'' = Some (VNum 15)
   \<and> the (map_of (colls (snd second_visit) ''users'') ''alice'') ''totalDonated'' = Some (VNum 20)
   \<and> calls (snd second_visit) =
        [UpdateDoc ''users'' ''alice'' [(''totalDonated'', Increment 5)],
         UpdateDoc ''users'' ''alice'' [(''totalDonated'', Increment 5)]]"
  by (simp add: second_visit_def first_visit_def updateDonationCount_def updateDoc_def say_def
        fresh_success_page_def donor_store_def with_coll_def empty_store_def alice_def paid_def
        decimal_number_def digit_def Let_def)

section \<open>Which issues a reviewer sees\<close>

lemma areasToQuery_take: "areasToQuery fa = take 30 fa"
  by (simp add: areasToQuery_def)

lemma str_in_take: "str_in v (take n vs) \<Longrightarrow> str_in v vs"
  by (cases "(v, take n vs)" rule: str_in.cases) (auto dest: in_set_takeD)

lemma str_in_Nil: "\<not> str_in v []"
  by (cases "(v, []::string list)" rule: str_in.cases) auto

lemma run_issues_query:
  "fold apply_constraint (issues_query areas) c =
     take 50 (rev (sort_key (\<lambda>e. order_key (snd e ''timestamp''))
       (filter (\<lambda>e. snd e ''timestamp'' \<noteq> None)
          (filter (\<lambda>e. str_in (snd e ''status'') targetStatuses)
             (filter (\<lambda>e. str_in (snd e ''category'') areas) c)))))"
  by (simp add: issues_query_def)

lemma run_issues_query_Nil: "fold apply_constraint (issues_query []) c = []"
  by (simp add: run_issues_query str_in_Nil)

text \<open>What one run of \<^verbatim>\<open>fetchData\<close> leaves behind, for a reviewer whose profile is read.\<close>

lemma fetchData_no_focus:
  assumes "ngoId \<noteq> []" and "rejects (GetDoc ''ngo_profiles'' ngoId) = None"
    and "map_of (colls st ''ngo_profiles'') ngoId = Some p" and "arr_of (p ''focusAreas'') = []"
  shows "fetchData rejects True ngoId pg st =
     (pg\<lparr>loading := False, error := None, ngoProfile := Some p, issues := []\<rparr>,
      st\<lparr>calls := calls st @ [GetDoc ''ngo_profiles'' ngoId]\<rparr>)"
  using assms
  by (simp add: fetchData_def getDoc_or_throw_def getDoc_def Let_def)

lemma fetchData_answered:
  assumes "ngoId \<noteq> []" and "rejects (GetDoc ''ngo_profiles'' ngoId) = None"
    and "map_of (colls st ''ngo_profiles'') ngoId = Some p" and "arr_of (p ''focusAreas'') \<noteq> []"
    and "rejects (GetDocs ''issues'' (issues_query (take 30 (arr_of (p ''focusAreas''))))) = None"
  shows "fetchData rejects True ngoId pg st =
     (pg\<lparr>loading := False, error := None, ngoProfile := Some p,
         issues := filter valid_issue
                     (fold apply_constraint (issues_query (take 30 (arr_of (p ''focusAreas'')))) (colls st ''issues''))\<rparr>,
      st\<lparr>calls := calls st @
             [GetDoc ''ngo_profiles'' ngoId,
              GetDocs ''issues'' (issues_query (take 30 (arr_of (p ''focusAreas''))))]\<rparr>)"
  using assms
  by (simp add: fetchData_def getDoc_or_throw_def getDocs_or_throw_def getDoc_def getDocs_def
        areasToQuery_take Let_def)

lemma fetchData_rejected:
  assumes "ngoId \<noteq> []" and "rejects (GetDoc ''ngo_profiles'' ngoId) = None"
    and "map_of (colls st ''ngo_profiles'') ngoId = Some p" and "arr_of (p ''focusAreas'') \<noteq> []"
    and "rejects (GetDocs ''issues'' (issues_query (take 30 (arr_of (p ''focusAreas''))))) = Some err"
  shows "fetchData rejects True ngoId pg st =
     (load_failed True err (pg\<lparr>loading := True, error := None, ngoProfile := Some p\<rparr>),
      st\<lparr>calls := calls st @
             [GetDoc ''ngo_profiles'' ngoId,
              GetDocs ''issues'' (issues_query (take 30 (arr_of (p ''focusAreas''))))]\<rparr>)"
  using assms
  by (simp add: fetchData_def getDoc_or_throw_def getDocs_or_throw_def getDoc_def getDocs_def
        areasToQuery_take Let_def)

lemma fetchData_keeps_profile:
  assumes "ngoId \<noteq> []" and "rejects (GetDoc ''ngo_profiles'' ngoId) = None"
    and "map_of (colls st ''ngo_profiles'') ngoId = Some p"
  shows "ngoProfile (fst (fetchData rejects True ngoId pg st)) = Some p"
proof (cases "arr_of (p ''focusAreas'') = []")
  case True
  with assms show ?thesis by (simp add: fetchData_no_focus)
next
  case False
  show ?thesis
  proof (cases "rejects (GetDocs ''issues'' (issues_query (take 30 (arr_of (p ''focusAreas'')))))")
    case None
    with assms False show ?thesis by (simp add: fetchData_answered)
  next
    case (Some err)
    with assms False show ?thesis by (simp add: fetchData_rejected load_failed_def)
  qed
qed

lemma fetchData_shown:
  assumes "ngoId \<noteq> []" and "rejects (GetDoc ''ngo_profiles'' ngoId) = None"
    and "map_of (colls st ''ngo_profiles'') ngoId = Some p"
    and "rejects (GetDocs ''issues'' (issues_query (take 30 (arr_of (p ''focusAreas''))))) = None"
  shows "issues (fst (fetchData rejects True ngoId pg st)) =
     filter valid_issue
       (fold apply_constraint (issues_query (take 30 (arr_of (p ''focusAreas'')))) (colls st ''issues''))"
proof (cases "arr_of (p ''focusAreas'') = []")
  case True
  with assms show ?thesis by (simp add: fetchData_no_focus run_issues_query_Nil)
next
  case False
  with assms show ?thesis by (simp add: fetchData_answered)
qed

lemma cardDescription_profile:
  "ngoProfile v = Some p \<Longrightarrow>
   cardDescription v =
     (if arr_of (p ''focusAreas'') = [] then ''No focus areas set in your profile to filter issues.''
      else ''Showing issues matching your focus areas: '' @ join '', '' (arr_of (p ''focusAreas'')))"
  by (cases "p ''focusAreas''") (auto simp: cardDescription_def)

lemma sorted_desc_rev_sort_key:
  "sorted_wrt (\<lambda>a b. k b \<le> k a) (rev (sort_key k xs))"
proof -
  have "sorted (map k (sort_key k xs))" by (rule sorted_sort_key)
  then have "sorted_wrt (\<lambda>a b. k a \<le> k b) (sort_key k xs)"
    by (simp add: sorted_map)
  then show ?thesis by (simp add: sorted_wrt_rev)
qed

lemma issues_query_sorted:
  "sorted_wrt (\<lambda>a b. order_key (snd b ''timestamp'') \<le> order_key (snd a ''timestamp''))
     (fold apply_constraint (issues_query areas) c)"
  unfolding run_issues_query
  by (rule sorted_wrt_take) (rule sorted_desc_rev_sort_key)

lemma issues_query_set:
  "set (fold apply_constraint (issues_query areas) c) \<subseteq>
     {e \<in> set c. str_in (snd e ''category'') areas \<and> str_in (snd e ''status'') targetStatuses
                  \<and> snd e ''timestamp'' \<noteq> None}"
  unfolding run_issues_query
  by (auto dest!: in_set_takeD)

lemma length_filter3_le:
  "length (filter R (filter Q (filter P xs))) \<le> length (filter (\<lambda>x. P x \<and> Q x) xs)"
proof -
  have "filter R (filter Q (filter P xs)) = filter R (filter (\<lambda>x. P x \<and> Q x) xs)"
    by (induction xs) auto
  then show ?thesis by (simp only: length_filter_le)
qed

lemma issues_query_all:
  assumes "length (filter (\<lambda>e. str_in (snd e ''category'') areas \<and> str_in (snd e ''status'') targetStatuses) c) \<le> 50"
  shows "set (fold apply_constraint (issues_query areas) c) =
     {e \<in> set c. str_in (snd e ''category'') areas \<and> str_in (snd e ''status'') targetStatuses
                  \<and> snd e ''timestamp'' \<noteq> None}"
proof -
  define m where "m = filter (\<lambda>e. snd e ''timestamp'' \<noteq> None)
          (filter (\<lambda>e. str_in (snd e ''status'') targetStatuses)
             (filter (\<lambda>e. str_in (snd e ''category'') areas) c))"
  have "length m \<le> length (filter (\<lambda>e. str_in (snd e ''category'') areas \<and> str_in (snd e ''status'') targetStatuses) c)"
    unfolding m_def by (rule length_filter3_le)
  with assms have "length (rev (sort_key (\<lambda>e. order_key (snd e ''timestamp'')) m)) \<le> 50"
    by simp
  then have "take 50 (rev (sort_key (\<lambda>e. order_key (snd e ''timestamp'')) m))
               = rev (sort_key (\<lambda>e. order_key (snd e ''timestamp'')) m)"
    by (rule take_all)
  then have "set (fold apply_constraint (issues_query areas) c) = set m"
    unfolding run_issues_query m_def [symmetric] by simp
  also have "set m = {e \<in> set c. str_in (snd e ''category'') areas \<and> str_in (snd e ''status'') targetStatuses
                  \<and> snd e ''timestamp'' \<noteq> None}"
    unfolding m_def by auto
  finally show ?thesis .
qed

lemma is_timestamp_Some: "is_timestamp v \<Longrightarrow> v \<noteq> None"
  by (cases v) auto

lemma valid_issue_has_timestamp: "valid_issue e \<Longrightarrow> snd e ''timestamp'' \<noteq> None"
  by (simp add: valid_issue_def Let_def is_timestamp_Some)

text \<open>
  C7 (as the code has it). For a reviewer whose profile the store returns: when the
  store answers the query, every issue shown is a stored issue whose category is one of
  the reviewer's focus areas, whose status is \<open>pending\<close> or \<open>in-progress\<close> and whose
  required fields are filled in, and, when at most 50 stored issues pass the category
  and status filter, the issues shown are exactly the stored ones with a category among
  the first 30 focus areas, an actionable status and valid fields; and the card reads
  "No focus areas set in your profile to filter issues." exactly when the focus-area
  list is empty.
\<close>

theorem fetchData_shows_matching_actionable:
  assumes "ngoId \<noteq> []" and "rejects (GetDoc ''ngo_profiles'' ngoId) = None"
    and "map_of (colls st ''ngo_profiles'') ngoId = Some p"
  shows "(rejects (GetDocs ''issues'' (issues_query (take 30 (arr_of (p ''focusAreas''))))) = None \<longrightarrow>
            (\<forall>e \<in> set (issues (fst (fetchData rejects True ngoId pg st))).
                e \<in> set (colls st ''issues'') \<and> str_in (snd e ''category'') (arr_of (p ''focusAreas''))
                \<and> str_in (snd e ''status'') targetStatuses \<and> valid_issue e)
            \<and> (length (filter (\<lambda>e. str_in (snd e ''category'') (take 30 (arr_of (p ''focusAreas'')))
                                  \<and> str_in (snd e ''status'') targetStatuses) (colls st ''issues'')) \<le> 50
                \<longrightarrow> set (issues (fst (fetchData rejects True ngoId pg st))) =
                      {e \<in> set (colls st ''issues'').
                         str_in (snd e ''category'') (take 30 (arr_of (p ''focusAreas'')))
                         \<and> str_in (snd e ''status'') targetStatuses \<and> valid_issue e}))
       \<and> ((cardDescription (fst (fetchData rejects True ngoId pg st))
              = ''No focus areas set in your profile to filter issues.'')
            = (arr_of (p ''focusAreas'') = []))"
proof -
  let ?fa = "arr_of (p ''focusAreas'')"
  let ?q = "fold apply_constraint (issues_query (take 30 ?fa)) (colls st ''issues'')"
  have a: "\<forall>e \<in> set (filter valid_issue ?q).
            e \<in> set (colls st ''issues'') \<and> str_in (snd e ''category'') ?fa
            \<and> str_in (snd e ''status'') targetStatuses \<and> valid_issue e"
  proof
    fix e assume "e \<in> set (filter valid_issue ?q)"
    then have v: "valid_issue e" and "e \<in> set ?q" by simp_all
    with issues_query_set [of "take 30 ?fa" "colls st ''issues''"]
    have "e \<in> set (colls st ''issues'')" and "str_in (snd e ''category'') (take 30 ?fa)"
      and "str_in (snd e ''status'') targetStatuses" by auto
    with v show "e \<in> set (colls st ''issues'') \<and> str_in (snd e ''category'') ?fa
            \<and> str_in (snd e ''status'') targetStatuses \<and> valid_issue e"
      by (blast dest: str_in_take)
  qed
  have b: "length (filter (\<lambda>e. str_in (snd e ''category'') (take 30 ?fa)
                              \<and> str_in (snd e ''status'') targetStatuses) (colls st ''issues'')) \<le> 50
           \<longrightarrow> set (filter valid_issue ?q) =
                 {e \<in> set (colls st ''issues'').
                    str_in (snd e ''category'') (take 30 ?fa)
                    \<and> str_in (snd e ''status'') targetStatuses \<and> valid_issue e}"
  proof
    assume "length (filter (\<lambda>e. str_in (snd e ''category'') (take 30 ?fa)
                              \<and> str_in (snd e ''status'') targetStatuses) (colls st ''issues'')) \<le> 50"
    then have "set ?q = {e \<in> set (colls st ''issues''). str_in (snd e ''category'') (take 30 ?fa)
                  \<and> str_in (snd e ''status'') targetStatuses \<and> snd e ''timestamp'' \<noteq> None}"
      by (rule issues_query_all)
    then have "set (filter valid_issue ?q) = {e \<in> set (colls st ''issues''). (str_in (snd e ''category'') (take 30 ?fa)
                  \<and> str_in (snd e ''status'') targetStatuses \<and> snd e ''timestamp'' \<noteq> None) \<and> valid_issue e}"
      by (simp only: set_filter) blast
    also have "\<dots> = {e \<in> set (colls st ''issues'').
                    str_in (snd e ''category'') (take 30 ?fa)
                    \<and> str_in (snd e ''status'') targetStatuses \<and> valid_issue e}"
      using valid_issue_has_timestamp by blast
    finally show "set (filter valid_issue ?q) =
                 {e \<in> set (colls st ''issues'').
                    str_in (snd e ''category'') (take 30 ?fa)
                    \<and> str_in (snd e ''status'') targetStatuses \<and> valid_issue e}" .
  qed
  have answered: "rejects (GetDocs ''issues'' (issues_query (take 30 ?fa))) = None \<Longrightarrow>
      issues (fst (fetchData rejects True ngoId pg st)) = filter valid_issue ?q"
    using assms by (rule fetchData_shown)
  have c: "(cardDescription (fst (fetchData rejects True ngoId pg st))
              = ''No focus areas set in your profile to filter issues.'') = (?fa = [])"
    using fetchData_keeps_profile [where rejects = rejects and pg = pg, OF assms]
    by (simp add: cardDescription_profile)
  show ?thesis
  proof (cases "rejects (GetDocs ''issues'' (issues_query (take 30 ?fa))) = None")
    case True
    from a b show ?thesis
      unfolding answered [OF True] using True c by blast
  next
    case False
    with c show ?thesis by blast
  qed
qed

lemma ngo_store_profile:
  "map_of (colls (ngo_store fa issue) ''ngo_profiles'') ''ngo1'' =
     Some [''orgName'' \<mapsto> VStr ''Helping Hands'', ''focusAreas'' \<mapsto> VArr fa]"
  by (simp add: ngo_store_def with_coll_def empty_store_def)

lemma ngo_store_issues: "colls (ngo_store fa issue) ''issues'' = [(''i1'', issue)]"
  by (simp add: ngo_store_def with_coll_def empty_store_def)

lemma valid_roof: "valid_issue (''i1'', roof)"
  by (simp add: valid_issue_def roof_def)

lemma no_faults_None: "no_faults c = None"
  by (simp add: no_faults_def)

text \<open>
  Witness for C7: the pending education issue is shown to the reviewer with focus areas
  education and health and not to the one with health only; the card text tells an
  empty focus-area list apart.
\<close>

theorem fetchData_shows_matching_actionable_witness:
  "''ngo1'' \<noteq> []
   \<and> no_faults (GetDoc ''ngo_profiles'' ''ngo1'') = None
   \<and> no_faults (GetDocs ''issues'' (issues_query (take 30 [''education'', ''health'']))) = None
   \<and> map_of (colls (ngo_store [''education'', ''health''] roof) ''ngo_profiles'') ''ngo1''
       = Some [''orgName'' \<mapsto> VStr ''Helping Hands'', ''focusAreas'' \<mapsto> VArr [''education'', ''health'']]
   \<and> length (filter (\<lambda>e. str_in (snd e ''category'') (take 30 [''education'', ''health''])
                          \<and> str_in (snd e ''status'') targetStatuses)
               (colls (ngo_store [''education'', ''health''] roof) ''issues'')) \<le> 50
   \<and> set (issues (fst (fetchData no_faults True ''ngo1'' fresh_issues_view (ngo_store [''education'', ''health''] roof))))
       = {(''i1'', roof)}
   \<and> set (issues (fst (fetchData no_faults True ''ngo1'' fresh_issues_view (ngo_store [''health''] roof)))) = {}
   \<and> cardDescription (fst (fetchData no_faults True ''ngo1'' fresh_issues_view (ngo_store [] roof)))
       = ''No focus areas set in your profile to filter issues.''
   \<and> cardDescription (fst (fetchData no_faults True ''ngo1'' fresh_issues_view (ngo_store [''health''] roof)))
       \<noteq> ''No focus areas set in your profile to filter issues.''"
proof -
  have n: "''ngo1'' \<noteq> []" by simp
  have g: "no_faults (GetDoc ''ngo_profiles'' ''ngo1'') = None" by (rule no_faults_None)
  note both = fetchData_shows_matching_actionable
    [where pg = fresh_issues_view and rejects = no_faults, OF n g ngo_store_profile [of "[''education'', ''health'']" roof]]
  note health = fetchData_shows_matching_actionable
    [where pg = fresh_issues_view and rejects = no_faults, OF n g ngo_store_profile [of "[''health'']" roof]]
  note none = fetchData_shows_matching_actionable
    [where pg = fresh_issues_view and rejects = no_faults, OF n g ngo_store_profile [of "[]" roof]]
  have small: "length (filter (\<lambda>e. str_in (snd e ''category'') (take 30 [''education'', ''health''])
                          \<and> str_in (snd e ''status'') targetStatuses)
               (colls (ngo_store [''education'', ''health''] roof) ''issues'')) \<le> 50"
    by (simp add: ngo_store_issues)
  have small': "length (filter (\<lambda>e. str_in (snd e ''category'') (take 30 [''health''])
                          \<and> str_in (snd e ''status'') targetStatuses)
               (colls (ngo_store [''health''] roof) ''issues'')) \<le> 50"
    by (simp add: ngo_store_issues)
  have cat: "str_in (roof ''category'') (take 30 [''education'', ''health''])"
    and st: "str_in (roof ''status'') targetStatuses"
    and nocat: "\<not> str_in (roof ''category'') (take 30 [''health''])"
    by (simp_all add: roof_def targetStatuses_def)
  from both [THEN conjunct1, THEN mp, OF no_faults_None, THEN conjunct2] small
  have "set (issues (fst (fetchData no_faults True ''ngo1'' fresh_issues_view (ngo_store [''education'', ''health''] roof))))
       = {e \<in> set [(''i1'', roof)]. str_in (snd e ''category'') (take 30 [''education'', ''health''])
                    \<and> str_in (snd e ''status'') targetStatuses \<and> valid_issue e}"
    by (simp only: ngo_store_issues arr_of.simps map_upd_Some_unfold fun_upd_same option.sel)
  also have "\<dots> = {(''i1'', roof)}"
    using cat st valid_roof by auto
  finally have a: "set (issues (fst (fetchData no_faults True ''ngo1'' fresh_issues_view (ngo_store [''education'', ''health''] roof))))
       = {(''i1'', roof)}" .
  from health [THEN conjunct1, THEN mp, OF no_faults_None, THEN conjunct2] small'
  have "set (issues (fst (fetchData no_faults True ''ngo1'' fresh_issues_view (ngo_store [''health''] roof))))
       = {e \<in> set [(''i1'', roof)]. str_in (snd e ''category'') (take 30 [''health''])
                    \<and> str_in (snd e ''status'') targetStatuses \<and> valid_issue e}"
    by (simp only: ngo_store_issues arr_of.simps map_upd_Some_unfold fun_upd_same option.sel)
  also have "\<dots> = {}"
    using nocat by auto
  finally have b: "set (issues (fst (fetchData no_faults True ''ngo1'' fresh_issues_view (ngo_store [''health''] roof)))) = {}" .
  have c: "cardDescription (fst (fetchData no_faults True ''ngo1'' fresh_issues_view (ngo_store [] roof)))
       = ''No focus areas set in your profile to filter issues.''"
    using none [THEN conjunct2] by simp
  have d: "cardDescription (fst (fetchData no_faults True ''ngo1'' fresh_issues_view (ngo_store [''health''] roof)))
       \<noteq> ''No focus areas set in your profile to filter issues.''"
    using health [THEN conjunct2] by simp
  have q: "no_faults (GetDocs ''issues'' (issues_query (take 30 [''education'', ''health'']))) = None"
    by (rule no_faults_None)
  have p: "map_of (colls (ngo_store [''education'', ''health''] roof) ''ngo_profiles'') ''ngo1''
       = Some [''orgName'' \<mapsto> VStr ''Helping Hands'', ''focusAreas'' \<mapsto> VArr [''education'', ''health'']]"
    by (rule ngo_store_profile)
  show ?thesis
    by (intro conjI n g q p small a b c d)
qed

text \<open>
  C7 as stated fails: an issue in a focus category that is already resolved is not
  shown, though the store answers every call.
\<close>

theorem fetchData_resolved_hidden_counterexample:
  "str_in (resolved_roof ''category'') [''education'', ''health'']
   \<and> \<not> visible ''i1'' (fst (fetchData no_faults True ''ngo1'' fresh_issues_view
                            (ngo_store [''education'', ''health''] resolved_roof)))
   \<and> issues (fst (fetchData no_faults True ''ngo1'' fresh_issues_view
                            (ngo_store [''education'', ''health''] resolved_roof))) = []"
  by (simp add: fetchData_def getDoc_or_throw_def getDocs_or_throw_def getDoc_def getDocs_def no_faults_def
        areasToQuery_def issues_query_def targetStatuses_def
        visible_def ngo_store_def with_coll_def empty_store_def fresh_issues_view_def roof_def resolved_roof_def Let_def)

lemma take_30_thirty_one: "take 30 thirty_one_areas = butlast thirty_one_areas"
  by (simp add: thirty_one_areas_def)

lemma issues_query_unfolded:
  "issues_query areas =
     [WhereIn ''category'' areas, WhereIn ''status'' [''pending'', ''in-progress''],
      OrderByDesc ''timestamp'', Limit 50]"
  by (simp add: issues_query_def targetStatuses_def)

text \<open>
  C8 (as the code has it). With a non-empty focus-area list \<^verbatim>\<open>fetchData\<close>
  sends one query, on the first 30 focus areas only. If the store answers it, what is
  shown has at most 50 entries, is ordered by timestamp, newest first, and holds only
  issues whose category is among those first 30. If the store rejects it, the list of
  issues stays as it was and the card shows an error.
\<close>

theorem fetchData_queries_first_thirty:
  assumes "ngoId \<noteq> []" and "rejects (GetDoc ''ngo_profiles'' ngoId) = None"
    and "map_of (colls st ''ngo_profiles'') ngoId = Some p"
    and "arr_of (p ''focusAreas'') \<noteq> []"
  shows "calls (snd (fetchData rejects True ngoId pg st)) =
           calls st @
             [GetDoc ''ngo_profiles'' ngoId,
              GetDocs ''issues''
                [WhereIn ''category'' (take 30 (arr_of (p ''focusAreas''))),
                 WhereIn ''status'' [''pending'', ''in-progress''],
                 OrderByDesc ''timestamp'', Limit 50]]
       \<and> (rejects (GetDocs ''issues'' (issues_query (take 30 (arr_of (p ''focusAreas''))))) = None \<longrightarrow>
             length (issues (fst (fetchData rejects True ngoId pg st))) \<le> 50
             \<and> sorted_wrt (\<lambda>a b. order_key (snd b ''timestamp'') \<le> order_key (snd a ''timestamp''))
                  (issues (fst (fetchData rejects True ngoId pg st)))
             \<and> (\<forall>e \<in> set (issues (fst (fetchData rejects True ngoId pg st))).
                   str_in (snd e ''category'') (take 30 (arr_of (p ''focusAreas'')))))
       \<and> (\<forall>err. rejects (GetDocs ''issues'' (issues_query (take 30 (arr_of (p ''focusAreas''))))) = Some err \<longrightarrow>
             issues (fst (fetchData rejects True ngoId pg st)) = issues pg
             \<and> error (fst (fetchData rejects True ngoId pg st)) =
                 Some (if err_code err = ''failed-precondition'' \<and> str_includes ''index'' (err_message err)
                       then ''Database index needed. Please check Firestore console for index suggestions on the 'issues' collection.''
                       else ''Failed to load relevant issues. '' @ err_message err)
             \<and> \<not> loading (fst (fetchData rejects True ngoId pg st)))"
proof -
  let ?areas = "take 30 (arr_of (p ''focusAreas''))"
  let ?q = "fold apply_constraint (issues_query ?areas) (colls st ''issues'')"
  let ?r = "fetchData rejects True ngoId pg st"
  have c: "calls (snd ?r) =
           calls st @
             [GetDoc ''ngo_profiles'' ngoId,
              GetDocs ''issues''
                [WhereIn ''category'' ?areas, WhereIn ''status'' [''pending'', ''in-progress''],
                 OrderByDesc ''timestamp'', Limit 50]]"
  proof (cases "rejects (GetDocs ''issues'' (issues_query ?areas))")
    case None
    with assms show ?thesis
      by (simp add: fetchData_answered) (simp add: issues_query_unfolded)
  next
    case (Some err)
    with assms show ?thesis
      by (simp add: fetchData_rejected) (simp add: issues_query_unfolded)
  qed
  have answered: "length (issues (fst ?r)) \<le> 50
             \<and> sorted_wrt (\<lambda>a b. order_key (snd b ''timestamp'') \<le> order_key (snd a ''timestamp''))
                  (issues (fst ?r))
             \<and> (\<forall>e \<in> set (issues (fst ?r)). str_in (snd e ''category'') ?areas)"
    if ok: "rejects (GetDocs ''issues'' (issues_query ?areas)) = None"
  proof -
    have shown: "issues (fst ?r) = filter valid_issue ?q"
      using assms(1-3) ok by (rule fetchData_shown)
    have "length ?q \<le> 50"
      by (simp add: run_issues_query)
    then have l: "length (filter valid_issue ?q) \<le> 50"
      using length_filter_le [of valid_issue ?q] by linarith
    have s: "sorted_wrt (\<lambda>a b. order_key (snd b ''timestamp'') \<le> order_key (snd a ''timestamp''))
              (filter valid_issue ?q)"
      by (rule sorted_wrt_filter) (rule issues_query_sorted)
    have m: "\<forall>e \<in> set (filter valid_issue ?q). str_in (snd e ''category'') ?areas"
      using issues_query_set [of ?areas "colls st ''issues''"] by auto
    from l s m show ?thesis
      unfolding shown by blast
  qed
  have rejected: "issues (fst ?r) = issues pg
             \<and> error (fst ?r) =
                 Some (if err_code err = ''failed-precondition'' \<and> str_includes ''index'' (err_message err)
                       then ''Database index needed. Please check Firestore console for index suggestions on the 'issues' collection.''
                       else ''Failed to load relevant issues. '' @ err_message err)
             \<and> \<not> loading (fst ?r)"
    if no: "rejects (GetDocs ''issues'' (issues_query ?areas)) = Some err" for err
    using assms no by (simp add: fetchData_rejected load_failed_def)
  from c answered rejected show ?thesis
    by (intro conjI impI allI) blast+
qed

text \<open>
  Witness for C8: a reviewer with 31 focus areas. The one query lists the first 30,
  whether the store answers it or rejects it for a missing index.
\<close>

theorem fetchData_queries_first_thirty_witness:
  "''ngo1'' \<noteq> []
   \<and> no_faults (GetDoc ''ngo_profiles'' ''ngo1'') = None
   \<and> query_rejected (GetDoc ''ngo_profiles'' ''ngo1'') = None
   \<and> map_of (colls (ngo_store thirty_one_areas (issue_in ''c01'')) ''ngo_profiles'') ''ngo1''
       = Some [''orgName'' \<mapsto> VStr ''Helping Hands'', ''focusAreas'' \<mapsto> VArr thirty_one_areas]
   \<and> arr_of ([''orgName'' \<mapsto> VStr ''Helping Hands'', ''focusAreas'' \<mapsto> VArr thirty_one_areas] ''focusAreas'') \<noteq> []
   \<and> calls (snd (fetchData no_faults True ''ngo1'' fresh_issues_view (ngo_store thirty_one_areas (issue_in ''c01'')))) =
        [GetDoc ''ngo_profiles'' ''ngo1'',
         GetDocs ''issues''
           [WhereIn ''category'' (butlast thirty_one_areas),
            WhereIn ''status'' [''pending'', ''in-progress''],
            OrderByDesc ''timestamp'', Limit 50]]
   \<and> length (issues (fst (fetchData no_faults True ''ngo1'' fresh_issues_view (ngo_store thirty_one_areas (issue_in ''c01''))))) \<le> 50
   \<and> calls (snd (fetchData query_rejected True ''ngo1'' fresh_issues_view (ngo_store thirty_one_areas (issue_in ''c01'')))) =
        [GetDoc ''ngo_profiles'' ''ngo1'',
         GetDocs ''issues''
           [WhereIn ''category'' (butlast thirty_one_areas),
            WhereIn ''status'' [''pending'', ''in-progress''],
            OrderByDesc ''timestamp'', Limit 50]]
   \<and> issues (fst (fetchData query_rejected True ''ngo1'' fresh_issues_view (ngo_store thirty_one_areas (issue_in ''c01'')))) = []
   \<and> error (fst (fetchData query_rejected True ''ngo1'' fresh_issues_view (ngo_store thirty_one_areas (issue_in ''c01'')))) =
        Some ''Database index needed. Please check Firestore console for index suggestions on the 'issues' collection.''"
proof -
  let ?st = "ngo_store thirty_one_areas (issue_in ''c01'')"
  have n: "''ngo1'' \<noteq> []" by simp
  have g: "no_faults (GetDoc ''ngo_profiles'' ''ngo1'') = None" by (rule no_faults_None)
  have g': "query_rejected (GetDoc ''ngo_profiles'' ''ngo1'') = None" by simp
  have p: "map_of (colls ?st ''ngo_profiles'') ''ngo1''
       = Some [''orgName'' \<mapsto> VStr ''Helping Hands'', ''focusAreas'' \<mapsto> VArr thirty_one_areas]"
    by (rule ngo_store_profile)
  have f: "arr_of ([''orgName'' \<mapsto> VStr ''Helping Hands'', ''focusAreas'' \<mapsto> VArr thirty_one_areas] ''focusAreas'') \<noteq> []"
    by (simp add: thirty_one_areas_def)
  have e: "calls ?st = []"
    by (simp add: ngo_store_def with_coll_def empty_store_def)
  have i: "issues fresh_issues_view = []"
    by (simp add: fresh_issues_view_def)
  note t = fetchData_queries_first_thirty
    [where pg = fresh_issues_view and rejects = no_faults, OF n g p f]
  note u = fetchData_queries_first_thirty
    [where pg = fresh_issues_view and rejects = query_rejected, OF n g' p f]
  from t [THEN conjunct1]
  have c: "calls (snd (fetchData no_faults True ''ngo1'' fresh_issues_view ?st)) =
        [GetDoc ''ngo_profiles'' ''ngo1'',
         GetDocs ''issues''
           [WhereIn ''category'' (butlast thirty_one_areas),
            WhereIn ''status'' [''pending'', ''in-progress''],
            OrderByDesc ''timestamp'', Limit 50]]"
    by (simp add: e take_30_thirty_one)
  from t [THEN conjunct2, THEN conjunct1, THEN mp, OF no_faults_None, THEN conjunct1]
  have l: "length (issues (fst (fetchData no_faults True ''ngo1'' fresh_issues_view ?st))) \<le> 50" .
  from u [THEN conjunct1]
  have c': "calls (snd (fetchData query_rejected True ''ngo1'' fresh_issues_view ?st)) =
        [GetDoc ''ngo_profiles'' ''ngo1'',
         GetDocs ''issues''
           [WhereIn ''category'' (butlast thirty_one_areas),
            WhereIn ''status'' [''pending'', ''in-progress''],
            OrderByDesc ''timestamp'', Limit 50]]"
    by (simp add: e take_30_thirty_one)
  have rej: "query_rejected (GetDocs ''issues'' (issues_query (take 30
               (arr_of ([''orgName'' \<mapsto> VStr ''Helping Hands'', ''focusAreas'' \<mapsto> VArr thirty_one_areas] ''focusAreas''))))) = Some index_missing"
    by simp
  note v = u [THEN conjunct2, THEN conjunct2, THEN spec, THEN mp, OF rej]
  from v [THEN conjunct1]
  have k: "issues (fst (fetchData query_rejected True ''ngo1'' fresh_issues_view ?st)) = []"
    by (simp add: i)
  from v [THEN conjunct2, THEN conjunct1]
  have m: "error (fst (fetchData query_rejected True ''ngo1'' fresh_issues_view ?st)) =
        Some ''Database index needed. Please check Firestore console for index suggestions on the 'issues' collection.''"
    by (simp add: index_missing_def)
  show ?thesis
    by (intro conjI n g g' p f c l c' k m)
qed

text \<open>
  C8 as stated fails: with 31 focus areas a valid pending issue in the 31st category is
  not shown, and there is one query, not two batches; this is so when the store answers
  the query and when it rejects it.
\<close>

theorem fetchData_thirty_first_area_dropped_counterexample:
  "''c31'' \<in> set thirty_one_areas \<and> length thirty_one_areas = 31
   \<and> valid_issue (''i1'', issue_in ''c31'') \<and> issue_in ''c31'' ''status'' = Some (VStr ''pending'')
   \<and> issues (fst (fetchData no_faults True ''ngo1'' fresh_issues_view (ngo_store thirty_one_areas (issue_in ''c31'')))) = []
   \<and> calls (snd (fetchData no_faults True ''ngo1'' fresh_issues_view (ngo_store thirty_one_areas (issue_in ''c31'')))) =
        [GetDoc ''ngo_profiles'' ''ngo1'', GetDocs ''issues'' (issues_query (butlast thirty_one_areas))]
   \<and> issues (fst (fetchData query_rejected True ''ngo1'' fresh_issues_view (ngo_store thirty_one_areas (issue_in ''c31'')))) = []
   \<and> calls (snd (fetchData query_rejected True ''ngo1'' fresh_issues_view (ngo_store thirty_one_areas (issue_in ''c31'')))) =
        [GetDoc ''ngo_profiles'' ''ngo1'', GetDocs ''issues'' (issues_query (butlast thirty_one_areas))]"
proof -
  let ?st = "ngo_store thirty_one_areas (issue_in ''c31'')"
  let ?p = "[''orgName'' \<mapsto> VStr ''Helping Hands'', ''focusAreas'' \<mapsto> VArr thirty_one_areas]"
  have a: "''c31'' \<in> set thirty_one_areas" and a': "length thirty_one_areas = 31"
    by (simp_all add: thirty_one_areas_def)
  have b: "valid_issue (''i1'', issue_in ''c31'')" and b': "issue_in ''c31'' ''status'' = Some (VStr ''pending'')"
    by (simp_all add: valid_issue_def issue_in_def roof_def)
  have n: "''ngo1'' \<noteq> []" by simp
  have g: "no_faults (GetDoc ''ngo_profiles'' ''ngo1'') = None" by (rule no_faults_None)
  have g': "query_rejected (GetDoc ''ngo_profiles'' ''ngo1'') = None" by simp
  have p: "map_of (colls ?st ''ngo_profiles'') ''ngo1'' = Some ?p"
    by (rule ngo_store_profile)
  have f: "arr_of (?p ''focusAreas'') \<noteq> []"
    by (simp add: thirty_one_areas_def)
  have fa: "arr_of (?p ''focusAreas'') = thirty_one_areas"
    by simp
  have e: "calls ?st = []"
    by (simp add: ngo_store_def with_coll_def empty_store_def)
  have ok: "no_faults (GetDocs ''issues'' (issues_query (take 30 (arr_of (?p ''focusAreas''))))) = None"
    by (rule no_faults_None)
  have no: "query_rejected (GetDocs ''issues'' (issues_query (take 30 (arr_of (?p ''focusAreas''))))) = Some index_missing"
    by simp
  have nc: "\<not> str_in (issue_in ''c31'' ''category'') (take 30 thirty_one_areas)"
    by (simp add: issue_in_def thirty_one_areas_def)
  have r: "fetchData no_faults True ''ngo1'' fresh_issues_view ?st =
     (fresh_issues_view\<lparr>loading := False, error := None, ngoProfile := Some ?p,
         issues := filter valid_issue
                     (fold apply_constraint (issues_query (take 30 thirty_one_areas)) (colls ?st ''issues''))\<rparr>,
      ?st\<lparr>calls := calls ?st @
             [GetDoc ''ngo_profiles'' ''ngo1'', GetDocs ''issues'' (issues_query (take 30 thirty_one_areas))]\<rparr>)"
    using fetchData_answered [where pg = fresh_issues_view and rejects = no_faults, OF n g p f ok]
    by (simp only: fa)
  have r': "fetchData query_rejected True ''ngo1'' fresh_issues_view ?st =
     (load_failed True index_missing (fresh_issues_view\<lparr>loading := True, error := None, ngoProfile := Some ?p\<rparr>),
      ?st\<lparr>calls := calls ?st @
             [GetDoc ''ngo_profiles'' ''ngo1'', GetDocs ''issues'' (issues_query (take 30 thirty_one_areas))]\<rparr>)"
    using fetchData_rejected [where pg = fresh_issues_view and rejects = query_rejected, OF n g' p f no]
    by (simp only: fa)
  have c: "issues (fst (fetchData no_faults True ''ngo1'' fresh_issues_view ?st)) = []"
    unfolding r by (simp add: run_issues_query ngo_store_issues nc)
  have d: "calls (snd (fetchData no_faults True ''ngo1'' fresh_issues_view ?st)) =
        [GetDoc ''ngo_profiles'' ''ngo1'', GetDocs ''issues'' (issues_query (butlast thirty_one_areas))]"
    unfolding r by (simp add: e take_30_thirty_one)
  have c': "issues (fst (fetchData query_rejected True ''ngo1'' fresh_issues_view ?st)) = []"
    unfolding r' by (simp add: load_failed_def fresh_issues_view_def)
  have d': "calls (snd (fetchData query_rejected True ''ngo1'' fresh_issues_view ?st)) =
        [GetDoc ''ngo_profiles'' ''ngo1'', GetDocs ''issues'' (issues_query (butlast thirty_one_areas))]"
    unfolding r' by (simp add: e take_30_thirty_one)
  show ?thesis
    by (intro conjI a a' b b' c d c' d')
qed

end
